theory Spec2Isabelle
  imports Complex_Main "HOL-Library.Multiset"
begin

section \<open>Python values used by the evolutionary search controller\<close>

text \<open>
  The development embeds \<^verbatim>\<open>src/evolving_rl/evolution.py\<close>: the point mutator
  \<^verbatim>\<open>DAGPointMutator\<close> and the controller \<^verbatim>\<open>CGSRegularizedEvolution\<close>.
  Exceptions are values of \<open>py_error\<close>; a function that can raise returns
  \<open>py_error + 'a\<close>.
\<close>

datatype py_error = IndexError | ValueError | AssertionError | AttributeError

text \<open>
  A Python float is a finite number, an infinity or NaN. Rounding of the finite
  values is not modelled: the two float operations the fingerprint uses
  (addition and \<^verbatim>\<open>round(x, 4)\<close>) are parameters of the mutator, so every
  statement below holds for whatever they compute.
\<close>

datatype pyfloat = Finite real | PosInf | NegInf | NaN

fun isnan :: "pyfloat \<Rightarrow> bool" where
  "isnan NaN = True"
| "isnan _ = False"

fun isinf :: "pyfloat \<Rightarrow> bool" where
  "isinf PosInf = True"
| "isinf NegInf = True"
| "isinf _ = False"

text \<open>
  The comparisons \<^verbatim>\<open><\<close> and \<^verbatim>\<open><=\<close> of floats: every comparison with NaN is false.
\<close>

fun py_lt :: "pyfloat \<Rightarrow> pyfloat \<Rightarrow> bool" where
  "py_lt (Finite a) (Finite b) = (a < b)"
| "py_lt (Finite a) PosInf = True"
| "py_lt (Finite a) NegInf = False"
| "py_lt (Finite a) NaN = False"
| "py_lt PosInf y = False"
| "py_lt NegInf (Finite b) = True"
| "py_lt NegInf PosInf = True"
| "py_lt NegInf NegInf = False"
| "py_lt NegInf NaN = False"
| "py_lt NaN y = False"


text \<open>\<^verbatim>\<open>np.finfo(np.float32).max\<close> is \<open>(2 - 2^-23) * 2^127\<close>; \<^verbatim>\<open>min\<close> is its negation.\<close>

definition f32_max :: real where
  "f32_max = (2 ^ 24 - 1) * 2 ^ 104"

definition f32_min :: real where
  "f32_min = - f32_max"

text \<open>\<^verbatim>\<open>np.clip(x, lo, hi)\<close> is \<^verbatim>\<open>minimum(maximum(x, lo), hi)\<close>; NaN propagates.\<close>

fun np_clip :: "pyfloat \<Rightarrow> real \<Rightarrow> real \<Rightarrow> pyfloat" where
  "np_clip (Finite x) lo hi = Finite (min (max x lo) hi)"
| "np_clip PosInf lo hi = Finite hi"
| "np_clip NegInf lo hi = Finite (min lo hi)"
| "np_clip NaN lo hi = NaN"

subsection \<open>Random sources\<close>

text \<open>
  A generator is the stream of raw numbers it will still produce. Each library
  call consumes one raw number per draw: \<^verbatim>\<open>_randbelow(n)\<close> reduces it modulo
  \<open>n\<close>, \<^verbatim>\<open>random()\<close> turns its low 53 bits into a float in \<open>[0, 1)\<close>.
\<close>

type_synonym rng = "nat \<Rightarrow> nat"

definition randbelow :: "rng \<Rightarrow> nat \<Rightarrow> nat \<times> rng" where
  "randbelow r n = (r 0 mod n, r \<circ> Suc)"

definition random_random :: "rng \<Rightarrow> real \<times> rng" where
  "random_random r = (real (r 0 mod 2 ^ 53) / 2 ^ 53, r \<circ> Suc)"

text \<open>\<^verbatim>\<open>random.choice(seq)\<close>: IndexError on an empty sequence.\<close>

definition random_choice :: "rng \<Rightarrow> 'a list \<Rightarrow> py_error + ('a \<times> rng)" where
  "random_choice r xs =
     (if xs = [] then Inl IndexError
      else (case randbelow r (length xs) of (j, r') \<Rightarrow> Inr (xs ! j, r')))"

text \<open>
  \<^verbatim>\<open>random.sample(population, k)\<close> of the standard library. ValueError when \<open>k\<close>
  exceeds the population. A population of at most \<^verbatim>\<open>setsize\<close> elements is sampled
  from a pool: the \<open>i\<close>-th draw takes \<open>pool[j]\<close> with \<open>j = _randbelow(n - i)\<close> and
  moves the last live element of the pool into position \<open>j\<close>. A larger population
  is sampled by position: \<open>j = _randbelow(n)\<close> is drawn again while \<open>j\<close> was
  selected before. That inner loop has no bound, so its result is an option.
\<close>

text \<open>The least \<open>e\<close> with \<open>m \<le> 4 ^ e\<close>, for \<^verbatim>\<open>_ceil(_log(k * 3, 4))\<close>.\<close>

function ceil_log4 :: "nat \<Rightarrow> nat" where
  "ceil_log4 m = (if m \<le> 1 then 0 else Suc (ceil_log4 ((m + 3) div 4)))"
  by pat_completeness auto
termination
  by (relation "measure (\<lambda>m. m)") auto

definition sample_setsize :: "nat \<Rightarrow> nat" where
  "sample_setsize k = (if 5 < k then 21 + 4 ^ ceil_log4 (k * 3) else 21)"

fun sample_pool :: "rng \<Rightarrow> 'a list \<Rightarrow> nat \<Rightarrow> 'a list \<times> rng" where
  "sample_pool r pool 0 = ([], r)"
| "sample_pool r pool (Suc k) =
     (case randbelow r (length pool) of (j, r') \<Rightarrow>
        (case sample_pool r' (butlast (pool[j := last pool])) k of (rest, r'') \<Rightarrow>
           (pool ! j # rest, r'')))"

partial_function (option) draw_unselected :: "rng \<Rightarrow> nat \<Rightarrow> nat list \<Rightarrow> (nat \<times> rng) option" where
  "draw_unselected r n selected =
     (case randbelow r n of (j, r') \<Rightarrow>
        if j \<in> set selected then draw_unselected r' n selected else Some (j, r'))"

fun sample_selected :: "rng \<Rightarrow> 'a list \<Rightarrow> nat \<Rightarrow> nat list \<Rightarrow> ('a list \<times> rng) option" where
  "sample_selected r population 0 selected = Some ([], r)"
| "sample_selected r population (Suc k) selected =
     (case draw_unselected r (length population) selected of
        None \<Rightarrow> None
      | Some (j, r') \<Rightarrow>
          (case sample_selected r' population k (j # selected) of
             None \<Rightarrow> None
           | Some (rest, r'') \<Rightarrow> Some (population ! j # rest, r'')))"

definition random_sample ::
  "rng \<Rightarrow> 'a list \<Rightarrow> nat \<Rightarrow> (py_error + ('a list \<times> rng)) option" where
  "random_sample r population k =
     (if length population < k then Some (Inl ValueError)
      else if length population \<le> sample_setsize k then Some (Inr (sample_pool r population k))
      else (case sample_selected r population k [] of
              None \<Rightarrow> None
            | Some res \<Rightarrow> Some (Inr res)))"

text \<open>
  The positions of the population that a sample takes, in the order drawn: the
  sample of the list of all positions.
\<close>

definition sample_positions :: "rng \<Rightarrow> nat \<Rightarrow> nat \<Rightarrow> (nat list \<times> rng) option" where
  "sample_positions r n k =
     (if n \<le> sample_setsize k then Some (sample_pool r [0 ..< n] k)
      else sample_selected r [0 ..< n] k [])"

text \<open>
  \<^verbatim>\<open>max(xs, key=f)\<close> with float keys: an element replaces the best one so far when
  its key is \<^verbatim>\<open>>\<close> the best key; ValueError on an empty argument.
\<close>

fun max_loop :: "('a \<Rightarrow> pyfloat) \<Rightarrow> 'a \<Rightarrow> 'a list \<Rightarrow> 'a" where
  "max_loop key best [] = best"
| "max_loop key best (x # xs) = max_loop key (if py_lt (key best) (key x) then x else best) xs"

definition py_max :: "('a \<Rightarrow> pyfloat) \<Rightarrow> 'a list \<Rightarrow> py_error + 'a" where
  "py_max key xs = (case xs of [] \<Rightarrow> Inl ValueError | x # rest \<Rightarrow> Inr (max_loop key x rest))"

text \<open>\<^verbatim>\<open>xs[:j]\<close>: a negative bound counts from the end.\<close>

definition py_slice_to :: "'a list \<Rightarrow> int \<Rightarrow> 'a list" where
  "py_slice_to xs j =
     (if j < 0 then take (nat (int (length xs) + j)) xs else take (nat j) xs)"

text \<open>\<^verbatim>\<open>xs.index(x)\<close> for an element that is present: the first position.\<close>

definition index_of :: "'a list \<Rightarrow> 'a \<Rightarrow> nat" where
  "index_of xs x = length (takeWhile (\<lambda>y. y \<noteq> x) xs)"

text \<open>
  The process-wide generators: the module-level generator of \<^verbatim>\<open>random\<close> and
  the global generator of \<^verbatim>\<open>numpy.random\<close>.
\<close>

record world =
  py_random :: rng
  np_random :: rng

definition np_random_uniform :: "world \<Rightarrow> real \<times> world" where
  "np_random_uniform w =
     (case random_random (np_random w) of (u, r') \<Rightarrow> (u, w\<lparr>np_random := r'\<rparr>))"

section \<open>Data model\<close>

text \<open>
  A node of a compiled program: its output data type, whether it is an instance
  of \<^verbatim>\<open>LossOpNode\<close>, and the attribute \<^verbatim>\<open>loss_weights\<close> (absent on other nodes).
\<close>

record 'd node =
  odtype :: 'd
  is_LossOpNode :: bool
  loss_weights :: "real list option"

text \<open>
  A compiled program: \<^verbatim>\<open>ops_lst\<close>, the result of \<^verbatim>\<open>find_leaf_nodes()\<close>, and the
  flattened output of calling it on a list of input batches.
\<close>

record 'd program =
  ops_lst :: "'d node list"
  find_leaf_nodes :: "nat list"
  call :: "pyfloat list list \<Rightarrow> pyfloat list"

record program_spec =
  program_lst :: "(nat \<times> nat list) list"
  loss_weight :: real
  duplicate :: bool
  reward :: pyfloat
  hash_output :: pyfloat

text \<open>
  The attributes \<^verbatim>\<open>_on_bound\<close> gives a mutator (\<^verbatim>\<open>dna_hash\<close>, an empty
  dictionary that the module never reads or writes again, is left out). The
  dictionary \<^verbatim>\<open>output_dict\<close> is a map; its keys are fingerprints, which are never
  NaN when the fallback float is finite.
\<close>

record mutator =
  output_dict :: "pyfloat \<rightharpoonup> pyfloat"
  random_inputs :: "pyfloat list list"
  rand_float :: pyfloat

text \<open>
  The members of the mutator and the collaborators it calls (the operator
  catalogue, the program builder, the sampler and the codec), which are not part
  of the module: they are parameters. \<open>spec_defaults\<close> holds the values
  \<^verbatim>\<open>ProgramSpec\<close> gives to the fields a constructor call leaves out.
\<close>

record ('dna, 'dspec, 'op, 'd) menv =
  mutation_probability :: real
  input_nodes :: "'d node list"
  num_freeze_ops :: nat
  adjust_loss_weight :: bool
  operators :: "'op list"
  LossOpNode :: 'op
  precheck_valid_input :: "'op \<Rightarrow> 'd node list \<Rightarrow> bool"
  construct_odtype :: "'op \<Rightarrow> nat list \<Rightarrow> 'd list \<Rightarrow> 'd"
  get_possible_input_idxs :: "'op \<Rightarrow> nat list \<Rightarrow> nat list list"
  build_program :: "program_spec \<Rightarrow> 'd program \<times> bool"
  sample_valid_program_spec :: "world \<Rightarrow> program_spec \<times> world"
  spec_defaults :: program_spec
  template_decode :: "'dna \<Rightarrow> program_spec"
  template_encode :: "program_spec \<Rightarrow> 'dna"
  dna_spec :: "'dna \<Rightarrow> 'dspec"
  use_spec :: "'dna \<Rightarrow> 'dspec \<Rightarrow> 'dna"
  dna_clone :: "'dna \<Rightarrow> 'dna"
  dna_last_value :: "'dna \<Rightarrow> pyfloat"
  initialize_random_input :: "'d node \<Rightarrow> nat \<Rightarrow> world \<Rightarrow> pyfloat list \<times> world"
  float_add :: "pyfloat \<Rightarrow> pyfloat \<Rightarrow> pyfloat"
  float_round4 :: "pyfloat \<Rightarrow> pyfloat"
  seed_rng :: "int \<Rightarrow> rng"

section \<open>DAGPointMutator\<close>

fun init_inputs ::
  "('dna, 'dspec, 'op, 'd) menv \<Rightarrow> 'd node list \<Rightarrow> world \<Rightarrow> pyfloat list list \<times> world" where
  "init_inputs env [] w = ([], w)"
| "init_inputs env (x # xs) w =
     (case initialize_random_input env x 10 w of (b, w') \<Rightarrow>
        (case init_inputs env xs w' of (bs, w'') \<Rightarrow> (b # bs, w'')))"

definition on_bound :: "('dna, 'dspec, 'op, 'd) menv \<Rightarrow> world \<Rightarrow> mutator \<times> world" where
  "on_bound env w =
     (case init_inputs env (input_nodes env) w of (inputs, w1) \<Rightarrow>
        (case np_random_uniform w1 of (u, w2) \<Rightarrow>
           (\<lparr>output_dict = Map.empty, random_inputs = inputs, rand_float = Finite u\<rparr>, w2)))"

text \<open>\<^verbatim>\<open>sum([round(x, 4) for x in output])\<close>: the sum starts from \<open>0\<close>.\<close>

definition sum_rounded :: "('dna, 'dspec, 'op, 'd) menv \<Rightarrow> pyfloat list \<Rightarrow> pyfloat" where
  "sum_rounded env output = foldl (float_add env) (Finite 0) (map (float_round4 env) output)"

definition compute_hash_output ::
  "('dna, 'dspec, 'op, 'd) menv \<Rightarrow> mutator \<Rightarrow> 'd program \<Rightarrow> pyfloat" where
  "compute_hash_output env m program =
     (let output = call program (random_inputs m);
          output_str = sum_rounded env output;
          output_str = (if isnan output_str \<or> isinf output_str then rand_float m else output_str)
      in np_clip output_str f32_min f32_max)"

definition check_duplicate ::
  "('dna, 'dspec, 'op, 'd) menv \<Rightarrow> mutator \<Rightarrow> 'd program \<Rightarrow> pyfloat \<times> bool \<times> pyfloat" where
  "check_duplicate env m program =
     (let output_str = compute_hash_output env m program in
      case output_dict m output_str of
        Some r \<Rightarrow> (output_str, True, r)
      | None \<Rightarrow> (output_str, False, Finite 0))"

definition update_output_dict ::
  "('dna, 'dspec, 'op, 'd) menv \<Rightarrow> mutator \<Rightarrow> 'dna \<Rightarrow> pyfloat \<Rightarrow> mutator" where
  "update_output_dict env m dna rew =
     m\<lparr>output_dict := (output_dict m)(dna_last_value env dna \<mapsto> rew)\<rparr>"

subsection \<open>Choosing the node to mutate\<close>

definition sample_node_idx_to_mutate ::
  "('dna, 'dspec, 'op, 'd) menv \<Rightarrow> 'd program \<Rightarrow> rng \<Rightarrow>
     py_error + (nat \<times> nat \<times> 'd node \<times> rng)" where
  "sample_node_idx_to_mutate env loss_program r =
     (let idxs = [length (input_nodes env) + num_freeze_ops env ..< length (ops_lst loss_program)]
      in if \<not> adjust_loss_weight env \<and> idxs = [] then Inl IndexError
         else (case random_choice r (if \<not> adjust_loss_weight env then butlast idxs else idxs) of
                 Inl e \<Rightarrow> Inl e
               | Inr (node_idx, r') \<Rightarrow>
                   Inr (node_idx, node_idx - length (input_nodes env),
                        ops_lst loss_program ! node_idx, r')))"

subsection \<open>Loss-weight mutation\<close>

definition alter_continuous ::
  "('dna, 'dspec, 'op, 'd) menv \<Rightarrow> (nat \<times> nat list) list \<Rightarrow> 'd program \<Rightarrow> rng \<Rightarrow>
     py_error + (program_spec \<times> rng)" where
  "alter_continuous env prog_lst loss_program r =
     (if ops_lst loss_program = [] then Inl IndexError
      else (case loss_weights (last (ops_lst loss_program)) of
              None \<Rightarrow> Inl AttributeError
            | Some ws \<Rightarrow>
                (case random_choice r ws of
                   Inl e \<Rightarrow> Inl e
                 | Inr (lw, r') \<Rightarrow>
                     Inr ((spec_defaults env)\<lparr>program_lst := prog_lst, loss_weight := lw\<rparr>, r'))))"

subsection \<open>Structural mutation\<close>

text \<open>
  \<^verbatim>\<open>all_inputs = loss_program.ops_lst[:node_idx - 1]\<close>, the nodes the replacement
  operator may read.
\<close>

definition all_inputs_of :: "'d program \<Rightarrow> nat \<Rightarrow> 'd node list" where
  "all_inputs_of loss_program node_idx = py_slice_to (ops_lst loss_program) (int node_idx - 1)"

text \<open>
  \<^verbatim>\<open>list(set(self.operators) - set([LossOpNode]))\<close>. The order in which Python
  iterates over the set is not specified; the model keeps the catalogue's order.
\<close>

definition possible_ops :: "('dna, 'dspec, 'op, 'd) menv \<Rightarrow> 'op list" where
  "possible_ops env = remdups (filter (\<lambda>c. c \<noteq> LossOpNode env) (operators env))"

text \<open>The inner loop, over the index tuples of one operator.\<close>

fun scan_input_idxs ::
  "('dna, 'dspec, 'op, 'd) menv \<Rightarrow> 'op \<Rightarrow> nat \<Rightarrow> bool \<Rightarrow> 'd node \<Rightarrow> 'd node list \<Rightarrow>
     nat list list \<Rightarrow> (nat \<times> nat list) list \<Rightarrow> py_error + (nat \<times> nat list) list" where
  "scan_input_idxs env op_cls op_idx is_leaf op_to_replace all_inputs [] valid_lst = Inr valid_lst"
| "scan_input_idxs env op_cls op_idx is_leaf op_to_replace all_inputs (input_idxs # rest) valid_lst =
     (if \<exists>idx \<in> set input_idxs. length all_inputs \<le> idx then Inl IndexError
      else
        (let input_ops = map (\<lambda>idx. all_inputs ! idx) input_idxs;
             input_dtypes = map odtype input_ops
         in if precheck_valid_input env op_cls input_ops then
              (if is_leaf then
                 scan_input_idxs env op_cls op_idx is_leaf op_to_replace all_inputs rest
                   (valid_lst @ [(op_idx, input_idxs)])
               else if construct_odtype env op_cls input_idxs input_dtypes = odtype op_to_replace then
                 scan_input_idxs env op_cls op_idx is_leaf op_to_replace all_inputs rest
                   (valid_lst @ [(op_idx, input_idxs)])
               else scan_input_idxs env op_cls op_idx is_leaf op_to_replace all_inputs rest valid_lst)
            else scan_input_idxs env op_cls op_idx is_leaf op_to_replace all_inputs rest valid_lst))"

text \<open>The outer loop, over the operator classes.\<close>

fun scan_ops ::
  "('dna, 'dspec, 'op, 'd) menv \<Rightarrow> bool \<Rightarrow> 'd node \<Rightarrow> 'd node list \<Rightarrow>
     'op list \<Rightarrow> (nat \<times> nat list) list \<Rightarrow> py_error + (nat \<times> nat list) list" where
  "scan_ops env is_leaf op_to_replace all_inputs [] valid_lst = Inr valid_lst"
| "scan_ops env is_leaf op_to_replace all_inputs (op_cls # rest) valid_lst =
     (case scan_input_idxs env op_cls (index_of (operators env) op_cls) is_leaf op_to_replace
             all_inputs (get_possible_input_idxs env op_cls [0 ..< length all_inputs]) valid_lst of
        Inl e \<Rightarrow> Inl e
      | Inr valid_lst' \<Rightarrow> scan_ops env is_leaf op_to_replace all_inputs rest valid_lst')"

text \<open>The list \<^verbatim>\<open>valid_lst\<close> built for the target \<open>node_idx\<close>.\<close>

definition valid_candidates ::
  "('dna, 'dspec, 'op, 'd) menv \<Rightarrow> 'd program \<Rightarrow> nat \<Rightarrow> py_error + (nat \<times> nat list) list" where
  "valid_candidates env loss_program node_idx =
     scan_ops env (node_idx \<in> set (find_leaf_nodes loss_program))
       (ops_lst loss_program ! node_idx) (all_inputs_of loss_program node_idx)
       (possible_ops env) []"

definition alter_node_idx ::
  "('dna, 'dspec, 'op, 'd) menv \<Rightarrow> (nat \<times> nat list) list \<Rightarrow> 'd program \<Rightarrow> rng \<Rightarrow>
     py_error + (program_spec \<times> rng)" where
  "alter_node_idx env prog_lst loss_program r =
     (case sample_node_idx_to_mutate env loss_program r of
        Inl e \<Rightarrow> Inl e
      | Inr (node_idx, n_idx, op_to_replace, r1) \<Rightarrow>
          if is_LossOpNode op_to_replace then alter_continuous env prog_lst loss_program r1
          else
            (case valid_candidates env loss_program node_idx of
               Inl e \<Rightarrow> Inl e
             | Inr valid_lst \<Rightarrow>
                 (case random_choice r1 valid_lst of
                    Inl e \<Rightarrow> Inl e
                  | Inr (cand, r2) \<Rightarrow>
                      Inr ((spec_defaults env)\<lparr>program_lst := prog_lst[n_idx := cand]\<rparr>, r2))))"

subsection \<open>The mutation entry point\<close>

text \<open>
  The \<^verbatim>\<open>while True\<close> loop of \<^verbatim>\<open>mutate\<close>: alter a node, rebuild, and start over when
  the builder reports an invalid program. The loop has no bound, so the result is
  an option: \<open>None\<close> is a loop that never leaves. The draws come from the
  module-level generator of \<^verbatim>\<open>random\<close>.
\<close>

partial_function (option) mutate_loop ::
  "('dna, 'dspec, 'op, 'd) menv \<Rightarrow> mutator \<Rightarrow> 'dspec \<Rightarrow> (nat \<times> nat list) list \<Rightarrow>
     'd program \<Rightarrow> world \<Rightarrow> (py_error + ('dna \<times> world)) option" where
  "mutate_loop env m old_spec prog_lst loss_program w =
     (case alter_node_idx env prog_lst loss_program (py_random w) of
        Inl e \<Rightarrow> Some (Inl e)
      | Inr (new_program_spec, r') \<Rightarrow>
          (case build_program env new_program_spec of
             (new_loss_program, valid) \<Rightarrow>
               if \<not> valid then
                 mutate_loop env m old_spec prog_lst loss_program (w\<lparr>py_random := r'\<rparr>)
               else
                 (case check_duplicate env m new_loss_program of
                    (hash_string, dup, rew) \<Rightarrow>
                      Some (Inr (use_spec env
                                   (template_encode env
                                      \<lparr>program_lst = program_lst new_program_spec,
                                       loss_weight = loss_weight new_program_spec,
                                       duplicate = dup,
                                       reward = rew,
                                       hash_output = hash_string\<rparr>)
                                   old_spec,
                                 w\<lparr>py_random := r'\<rparr>)))))"

text \<open>
  \<^verbatim>\<open>mutate\<close> returns the new genome together with the mutator's attributes and
  the process-wide generators as the call leaves them.
\<close>

definition mutate ::
  "('dna, 'dspec, 'op, 'd) menv \<Rightarrow> mutator \<Rightarrow> world \<Rightarrow> 'dna \<Rightarrow>
     (py_error + ('dna \<times> mutator \<times> world)) option" where
  "mutate env m w dna =
     (let old_spec = dna_spec env dna in
      case random_random (py_random w) of
        (u, r1) \<Rightarrow>
          if u < mutation_probability env then
            (let program_spec = template_decode env dna;
                 prog_lst = program_lst program_spec;
                 loss_program = fst (build_program env program_spec)
             in case mutate_loop env m old_spec prog_lst loss_program (w\<lparr>py_random := r1\<rparr>) of
                  None \<Rightarrow> None
                | Some (Inl e) \<Rightarrow> Some (Inl e)
                | Some (Inr (new_dna, w')) \<Rightarrow> Some (Inr (new_dna, m, w')))
          else
            (case sample_valid_program_spec env (w\<lparr>py_random := r1\<rparr>) of
               (program_spec, w') \<Rightarrow>
                 Some (Inr (use_spec env (template_encode env program_spec) old_spec, m, w'))))"

section \<open>CGSRegularizedEvolution\<close>

record 'dna individual =
  ind_dna :: 'dna
  ind_reward :: pyfloat

text \<open>
  The controller: its members \<^verbatim>\<open>population_size\<close>, \<^verbatim>\<open>tournament_size\<close>, \<^verbatim>\<open>seed\<close>
  and \<^verbatim>\<open>mutator\<close>, the bound \<^verbatim>\<open>dna_spec\<close>, the deque \<^verbatim>\<open>_population\<close> (oldest
  first) and \<^verbatim>\<open>_random\<close>, which is \<open>None\<close> when it is the module \<^verbatim>\<open>random\<close>
  itself and the controller's own generator otherwise.
\<close>

record ('dna, 'dspec) controller =
  population_size :: nat
  tournament_size :: nat
  seed :: "int option"
  the_mutator :: mutator
  ctrl_dna_spec :: 'dspec
  population :: "'dna individual list"
  random_src :: "rng option"

definition setup_controller ::
  "('dna, 'dspec, 'op, 'd) menv \<Rightarrow> nat \<Rightarrow> nat \<Rightarrow> int option \<Rightarrow> mutator \<Rightarrow> 'dspec \<Rightarrow>
     py_error + ('dna, 'dspec) controller" where
  "setup_controller env psize tsize sd m dspec =
     (if \<not> 2 \<le> tsize then Inl AssertionError
      else if \<not> tsize \<le> psize then Inl AssertionError
      else Inr \<lparr>population_size = psize, tournament_size = tsize, seed = sd,
                the_mutator = m, ctrl_dna_spec = dspec, population = [],
                random_src = (case sd of None \<Rightarrow> None | Some n \<Rightarrow> Some (seed_rng env n))\<rparr>)"

text \<open>
  \<^verbatim>\<open>self._random.sample(self._population, self.tournament_size)\<close>: the draws come
  from the controller's generator when a seed was given, from the module-level
  generator otherwise.
\<close>

definition draw_tournament ::
  "('dna, 'dspec) controller \<Rightarrow> world \<Rightarrow>
     (py_error + ('dna individual list \<times> ('dna, 'dspec) controller \<times> world)) option" where
  "draw_tournament c w =
     (case random_src c of
        None \<Rightarrow>
          (case random_sample (py_random w) (population c) (tournament_size c) of
             None \<Rightarrow> None
           | Some (Inl e) \<Rightarrow> Some (Inl e)
           | Some (Inr (t, r')) \<Rightarrow> Some (Inr (t, c, w\<lparr>py_random := r'\<rparr>)))
      | Some r \<Rightarrow>
          (case random_sample r (population c) (tournament_size c) of
             None \<Rightarrow> None
           | Some (Inl e) \<Rightarrow> Some (Inl e)
           | Some (Inr (t, r')) \<Rightarrow> Some (Inr (t, c\<lparr>random_src := Some r'\<rparr>, w))))"

definition propose ::
  "('dna, 'dspec, 'op, 'd) menv \<Rightarrow> ('dna, 'dspec) controller \<Rightarrow> world \<Rightarrow>
     (py_error + ('dna \<times> ('dna, 'dspec) controller \<times> world)) option" where
  "propose env c w =
     (if length (population c) < population_size c then
        (case sample_valid_program_spec env w of
           (program_spec, w') \<Rightarrow>
             Some (Inr (use_spec env (template_encode env program_spec) (ctrl_dna_spec c), c, w')))
      else if length (population c) \<noteq> population_size c then Some (Inl AssertionError)
      else
        (case draw_tournament c w of
           None \<Rightarrow> None
         | Some (Inl e) \<Rightarrow> Some (Inl e)
         | Some (Inr (tournament, c', w')) \<Rightarrow>
             (case py_max ind_reward tournament of
                Inl e \<Rightarrow> Some (Inl e)
              | Inr selected \<Rightarrow>
                  (let parent = use_spec env (dna_clone env (ind_dna selected)) (ctrl_dna_spec c')
                   in case mutate env (the_mutator c') w' parent of
                        None \<Rightarrow> None
                      | Some (Inl e) \<Rightarrow> Some (Inl e)
                      | Some (Inr (d, m', w'')) \<Rightarrow>
                          Some (Inr (d, c'\<lparr>the_mutator := m'\<rparr>, w''))))))"

text \<open>The \<^verbatim>\<open>while\<close> loop of \<^verbatim>\<open>feedback\<close>: \<^verbatim>\<open>popleft\<close> while the deque is too long.\<close>

function evict :: "nat \<Rightarrow> 'a list \<Rightarrow> 'a list" where
  "evict n xs = (if n < length xs then evict n (tl xs) else xs)"
  by pat_completeness auto
termination
  by (relation "measure (\<lambda>(n, xs). length xs)") auto

definition feedback ::
  "('dna, 'dspec, 'op, 'd) menv \<Rightarrow> ('dna, 'dspec) controller \<Rightarrow> 'dna \<Rightarrow> pyfloat \<Rightarrow>
     ('dna, 'dspec) controller" where
  "feedback env c dna rew =
     c\<lparr>the_mutator := update_output_dict env (the_mutator c) dna rew,
       population := evict (population_size c)
                       (population c @ [\<lparr>ind_dna = dna, ind_reward = rew\<rparr>])\<rparr>"

text \<open>A run of \<^verbatim>\<open>feedback\<close> calls, in order.\<close>

fun feedbacks ::
  "('dna, 'dspec, 'op, 'd) menv \<Rightarrow> ('dna, 'dspec) controller \<Rightarrow> ('dna \<times> pyfloat) list \<Rightarrow>
     ('dna, 'dspec) controller" where
  "feedbacks env c [] = c"
| "feedbacks env c ((dna, rew) # rest) = feedbacks env (feedback env c dna rew) rest"

text \<open>The individuals a run of \<^verbatim>\<open>feedback\<close> calls creates, in order.\<close>

definition as_individuals :: "('dna \<times> pyfloat) list \<Rightarrow> 'dna individual list" where
  "as_individuals fs = map (\<lambda>(d, r). \<lparr>ind_dna = d, ind_reward = r\<rparr>) fs"

text \<open>
  The reward that the mapping holds for the fingerprint \<open>fp\<close> after a
  \<^verbatim>\<open>feedback\<close> that recorded \<open>rew\<close> under it and the later \<^verbatim>\<open>feedback\<close> calls \<open>fs\<close>:
  the reward of the last call that carried this fingerprint.
\<close>

definition recorded_reward ::
  "('dna, 'dspec, 'op, 'd) menv \<Rightarrow> pyfloat \<Rightarrow> pyfloat \<Rightarrow> ('dna \<times> pyfloat) list \<Rightarrow> pyfloat" where
  "recorded_reward env fp rew fs =
     last (rew # map snd (filter (\<lambda>f. dna_last_value env (fst f) = fp) fs))"

text \<open>
  The generator that \<^verbatim>\<open>self._random\<close> denotes, and the state of controller and
  process-wide generators once that generator has advanced to \<open>g\<close>.
\<close>

definition tournament_rng :: "('dna, 'dspec) controller \<Rightarrow> world \<Rightarrow> rng" where
  "tournament_rng c w = (case random_src c of None \<Rightarrow> py_random w | Some r \<Rightarrow> r)"

definition store_tournament_rng ::
  "('dna, 'dspec) controller \<Rightarrow> world \<Rightarrow> rng \<Rightarrow> ('dna, 'dspec) controller \<times> world" where
  "store_tournament_rng c w g =
     (case random_src c of
        None \<Rightarrow> (c, w\<lparr>py_random := g\<rparr>)
      | Some r \<Rightarrow> (c\<lparr>random_src := Some g\<rparr>, w))"

section \<open>The search loop\<close>

text \<open>
  The driver is outside the module. As the design describes it, it calls
  \<^verbatim>\<open>propose\<close>, hands the genome to an evaluator, and calls \<^verbatim>\<open>feedback\<close> with the
  reward, strictly in turn. A run of \<open>n\<close> such rounds yields the genomes
  proposed and the final state; it stops at the first error.
\<close>

fun search_loop ::
  "('dna, 'dspec, 'op, 'd) menv \<Rightarrow> ('dna \<Rightarrow> pyfloat) \<Rightarrow> nat \<Rightarrow> ('dna, 'dspec) controller \<Rightarrow> world \<Rightarrow>
     (py_error + ('dna list \<times> ('dna, 'dspec) controller \<times> world)) option" where
  "search_loop env evaluate 0 c w = Some (Inr ([], c, w))"
| "search_loop env evaluate (Suc n) c w =
     (case propose env c w of
        None \<Rightarrow> None
      | Some (Inl e) \<Rightarrow> Some (Inl e)
      | Some (Inr (d, c', w')) \<Rightarrow>
          (case search_loop env evaluate n (feedback env c' d (evaluate d)) w' of
             None \<Rightarrow> None
           | Some (Inl e) \<Rightarrow> Some (Inl e)
           | Some (Inr (ds, c'', w'')) \<Rightarrow> Some (Inr (d # ds, c'', w''))))"

section \<open>A small search space\<close>

text \<open>
  A concrete instance of the collaborators, on which the statements below are
  evaluated. Data types and operator classes are numbers; operator \<open>0\<close> keeps
  the data type of its single input, operator \<open>1\<close> accepts an input of type \<open>0\<close>
  and yields type \<open>1\<close>, operator \<open>2\<close> is the loss operator. There are two input
  nodes, of types \<open>0\<close> and \<open>1\<close>. A genome is a program specification paired with
  the DNA specification it is bound to.
\<close>

definition ex_rng :: "nat list \<Rightarrow> rng" where
  "ex_rng xs = (\<lambda>i. if i < length xs then xs ! i else 0)"

definition ex_inputs :: "nat node list" where
  "ex_inputs = [\<lparr>odtype = 0, is_LossOpNode = False, loss_weights = None\<rparr>,
                \<lparr>odtype = 1, is_LossOpNode = False, loss_weights = None\<rparr>]"

definition ex_odtype :: "nat \<Rightarrow> nat list \<Rightarrow> nat list \<Rightarrow> nat" where
  "ex_odtype op_cls idxs dtypes =
     (if op_cls = 0 then (case dtypes of [] \<Rightarrow> 0 | d # ds \<Rightarrow> d) else if op_cls = 1 then 1 else 0)"

definition ex_precheck :: "nat \<Rightarrow> nat node list \<Rightarrow> bool" where
  "ex_precheck op_cls ins =
     (length ins = 1 \<and> (op_cls = 1 \<longrightarrow> list_all (\<lambda>x. odtype x = 0) ins))"

fun ex_nodes :: "nat node list \<Rightarrow> (nat \<times> nat list) list \<Rightarrow> nat node list" where
  "ex_nodes acc [] = acc"
| "ex_nodes acc ((op_cls, idxs) # rest) =
     ex_nodes (acc @ [\<lparr>odtype = ex_odtype op_cls idxs
                                   (map (\<lambda>i. if i < length acc then odtype (acc ! i) else 0) idxs),
                        is_LossOpNode = (op_cls = 2),
                        loss_weights = (if op_cls = 2 then Some [1 / 2, 2] else None)\<rparr>]) rest"

fun ex_valid :: "nat \<Rightarrow> (nat \<times> nat list) list \<Rightarrow> bool" where
  "ex_valid k [] = True"
| "ex_valid k ((op_cls, idxs) # rest) = (list_all (\<lambda>i. i < k) idxs \<and> ex_valid (Suc k) rest)"

definition ex_build :: "program_spec \<Rightarrow> nat program \<times> bool" where
  "ex_build ps =
     (\<lparr>ops_lst = ex_nodes ex_inputs (program_lst ps),
       find_leaf_nodes =
         filter (\<lambda>i. list_all (\<lambda>e. i \<notin> set (snd e)) (program_lst ps))
           [0 ..< 2 + length (program_lst ps)],
       call = (\<lambda>inputs. map (\<lambda>e. Finite (real (fst e))) (program_lst ps) @ [Finite (loss_weight ps)])\<rparr>,
      ex_valid 2 (program_lst ps))"

fun ex_float_add :: "pyfloat \<Rightarrow> pyfloat \<Rightarrow> pyfloat" where
  "ex_float_add (Finite a) (Finite b) = Finite (a + b)"
| "ex_float_add NaN y = NaN"
| "ex_float_add x NaN = NaN"
| "ex_float_add PosInf NegInf = NaN"
| "ex_float_add NegInf PosInf = NaN"
| "ex_float_add PosInf y = PosInf"
| "ex_float_add x PosInf = PosInf"
| "ex_float_add NegInf y = NegInf"
| "ex_float_add x NegInf = NegInf"

definition ex_defaults :: program_spec where
  "ex_defaults = \<lparr>program_lst = [], loss_weight = 1, duplicate = False, reward = Finite 0,
                   hash_output = Finite 0\<rparr>"

definition ex_sampler :: "world \<Rightarrow> program_spec \<times> world" where
  "ex_sampler w =
     (ex_defaults\<lparr>program_lst := [(np_random w 0 mod 2, [0]), (0, [0]), (2, [3])]\<rparr>,
      w\<lparr>np_random := np_random w \<circ> Suc\<rparr>)"

definition ex_env :: "(program_spec \<times> nat, nat, nat, nat) menv" where
  "ex_env =
     \<lparr>mutation_probability = 4 / 5,
      input_nodes = ex_inputs,
      num_freeze_ops = 0,
      adjust_loss_weight = True,
      operators = [0, 1, 2],
      LossOpNode = 2,
      precheck_valid_input = ex_precheck,
      construct_odtype = ex_odtype,
      get_possible_input_idxs = (\<lambda>op_cls rng. map (\<lambda>i. [i]) rng),
      build_program = ex_build,
      sample_valid_program_spec = ex_sampler,
      spec_defaults = ex_defaults,
      template_decode = fst,
      template_encode = (\<lambda>ps. (ps, 0)),
      dna_spec = snd,
      use_spec = (\<lambda>dna dspec. (fst dna, dspec)),
      dna_clone = (\<lambda>dna. dna),
      dna_last_value = (\<lambda>dna. hash_output (fst dna)),
      initialize_random_input = (\<lambda>x n w. (replicate n (Finite 0), w)),
      float_add = ex_float_add,
      float_round4 = (\<lambda>x. x),
      seed_rng = (\<lambda>n. ex_rng [nat \<bar>n\<bar>])\<rparr>"

definition ex_mutator :: mutator where
  "ex_mutator = \<lparr>output_dict = Map.empty, random_inputs = [], rand_float = Finite (1 / 4)\<rparr>"

text \<open>A parent whose nodes \<open>2\<close> and \<open>3\<close> are read downstream, and one whose node \<open>3\<close> is a leaf.\<close>

definition ex_chain :: program_spec where
  "ex_chain = ex_defaults\<lparr>program_lst := [(0, [0]), (0, [2]), (2, [3])]\<rparr>"

definition ex_leafy :: program_spec where
  "ex_leafy = ex_defaults\<lparr>program_lst := [(0, [0]), (0, [0]), (2, [2])]\<rparr>"

text \<open>Two programs whose outputs do not sum to a finite number.\<close>

definition ex_nan_program :: "nat program" where
  "ex_nan_program = \<lparr>ops_lst = [], find_leaf_nodes = [], call = (\<lambda>inputs. [Finite 1, NaN])\<rparr>"

definition ex_inf_program :: "nat program" where
  "ex_inf_program = \<lparr>ops_lst = [], find_leaf_nodes = [], call = (\<lambda>inputs. [PosInf, Finite 2])\<rparr>"

text \<open>A genome that carries the fingerprint \<open>h\<close>.\<close>

definition ex_dna :: "pyfloat \<Rightarrow> program_spec \<times> nat" where
  "ex_dna h = (ex_chain\<lparr>hash_output := h\<rparr>, 0)"

text \<open>A controller of capacity four with tournaments of two, seeded, before any feedback.\<close>

definition ex_ctrl :: "(program_spec \<times> nat, nat) controller" where
  "ex_ctrl = \<lparr>population_size = 4, tournament_size = 2, seed = Some 1,
              the_mutator = ex_mutator, ctrl_dna_spec = 0, population = [],
              random_src = Some (ex_rng [1])\<rparr>"

text \<open>
  The loss node of the example programs, the parent \<open>ex_chain\<close> with the loss
  weight \<open>2\<close>, and a mutator that has already seen the fingerprint of that
  program with reward \<open>7\<close>.
\<close>

definition ex_loss_node :: "nat node" where
  "ex_loss_node = \<lparr>odtype = 0, is_LossOpNode = True, loss_weights = Some [1 / 2, 2]\<rparr>"

definition ex_heavy :: program_spec where
  "ex_heavy = ex_defaults\<lparr>program_lst := program_lst ex_chain, loss_weight := 2\<rparr>"

definition ex_seen :: mutator where
  "ex_seen = ex_mutator\<lparr>output_dict := [Finite 4 \<mapsto> Finite 7]\<rparr>"

text \<open>The controller after four \<^verbatim>\<open>feedback\<close> calls, with rewards \<open>1\<close> to \<open>4\<close>.\<close>

definition ex_full :: "(program_spec \<times> nat, nat) controller" where
  "ex_full = feedbacks ex_env ex_ctrl
     [((ex_chain, 0), Finite 1), ((ex_chain, 0), Finite 2),
      ((ex_leafy, 0), Finite 3), ((ex_leafy, 0), Finite 4)]"

text \<open>Two states of the process-wide generators that differ in the module-level one.\<close>

definition ex_world1 :: world where
  "ex_world1 = \<lparr>py_random = ex_rng [0, 2, Suc 0], np_random = ex_rng []\<rparr>"

definition ex_world2 :: world where
  "ex_world2 = \<lparr>py_random = ex_rng [0, 2, 0], np_random = ex_rng []\<rparr>"

text \<open>The parent \<open>ex_chain\<close> with the loss weight \<open>1 / 2\<close>.\<close>

definition ex_light :: program_spec where
  "ex_light = ex_defaults\<lparr>program_lst := program_lst ex_chain, loss_weight := 1 / 2\<rparr>"

text \<open>
  A controller of capacity two with tournaments of two, seeded, before any
  feedback; an evaluator that rewards a genome with its loss weight; a third
  state of the process-wide generators; and the two specifications the sampler
  of the example can return.
\<close>

definition ex_small :: "(program_spec \<times> nat, nat) controller" where
  "ex_small = \<lparr>population_size = 2, tournament_size = 2, seed = Some 1,
               the_mutator = ex_mutator, ctrl_dna_spec = 0, population = [],
               random_src = Some (ex_rng [1])\<rparr>"

definition ex_evaluate :: "program_spec \<times> nat \<Rightarrow> pyfloat" where
  "ex_evaluate d = Finite (loss_weight (fst d) + real (fst (hd (program_lst (fst d)))))"

definition ex_world3 :: world where
  "ex_world3 = \<lparr>py_random = ex_rng [0, 2, 0], np_random = ex_rng [Suc 0, Suc 0]\<rparr>"

definition ex_fresh0 :: program_spec where
  "ex_fresh0 = ex_defaults\<lparr>program_lst := [(0, [0]), (0, [0]), (2, [3])]\<rparr>"

definition ex_fresh1 :: program_spec where
  "ex_fresh1 = ex_defaults\<lparr>program_lst := [(Suc 0, [0]), (0, [0]), (2, [3])]\<rparr>"


text \<open>
  Two runs of three rounds from \<^verbatim>\<open>ex_small\<close>: the genome proposed in the third round
  and the controller after the third \<^verbatim>\<open>feedback\<close>, for each run.
\<close>

definition ex_child_a :: "program_spec \<times> nat" where
  "ex_child_a = (\<lparr>program_lst = program_lst ex_fresh0, loss_weight = 2, duplicate = False,
                   reward = Finite 0, hash_output = Finite 4\<rparr>, 0)"

definition ex_child_b :: "program_spec \<times> nat" where
  "ex_child_b = (\<lparr>program_lst = program_lst ex_fresh1, loss_weight = 1 / 2, duplicate = False,
                   reward = Finite 0, hash_output = Finite (7 / 2)\<rparr>, 0)"

definition ex_final_a :: "(program_spec \<times> nat, nat) controller" where
  "ex_final_a =
     feedback ex_env
       ((feedback ex_env (feedback ex_env ex_small (ex_fresh0, 0) (Finite 1))
           (ex_fresh0, 0) (Finite 1))\<lparr>random_src := Some (ex_rng [])\<rparr>)
       ex_child_a (Finite 2)"

definition ex_final_b :: "(program_spec \<times> nat, nat) controller" where
  "ex_final_b =
     feedback ex_env
       ((feedback ex_env (feedback ex_env ex_small (ex_fresh1, 0) (Finite 2))
           (ex_fresh1, 0) (Finite 2))\<lparr>random_src := Some (ex_rng [])\<rparr>)
       ex_child_b (Finite (3 / 2))"

section \<open>Acceptance of a candidate, as the specification words it\<close>

text \<open>
  A candidate (operator, input indices) for a target node is accepted when the
  operator's precheck passes on the input nodes and, unless the target is a
  leaf, the data type the operator infers equals the data type of the node it
  replaces.
\<close>

definition accepts_candidate ::
  "('dna, 'dspec, 'op, 'd) menv \<Rightarrow> bool \<Rightarrow> 'd node \<Rightarrow> 'd node list \<Rightarrow> 'op \<Rightarrow> nat list \<Rightarrow> bool" where
  "accepts_candidate env is_leaf op_to_replace all_inputs op_cls input_idxs =
     (precheck_valid_input env op_cls (map (\<lambda>idx. all_inputs ! idx) input_idxs) \<and>
      (is_leaf \<or>
       construct_odtype env op_cls input_idxs
         (map odtype (map (\<lambda>idx. all_inputs ! idx) input_idxs)) = odtype op_to_replace))"

text \<open>All accepted candidates, operator by operator.\<close>

definition accepted_candidates ::
  "('dna, 'dspec, 'op, 'd) menv \<Rightarrow> bool \<Rightarrow> 'd node \<Rightarrow> 'd node list \<Rightarrow> 'op list \<Rightarrow>
     (nat \<times> nat list) list" where
  "accepted_candidates env is_leaf op_to_replace all_inputs ops =
     concat (map (\<lambda>op_cls.
        map (Pair (index_of (operators env) op_cls))
          (filter (accepts_candidate env is_leaf op_to_replace all_inputs op_cls)
             (get_possible_input_idxs env op_cls [0 ..< length all_inputs]))) ops)"

section \<open>The fingerprint and the duplicate check\<close>

lemma ex_env_fields:
  "mutation_probability ex_env = 4 / 5"
  "input_nodes ex_env = ex_inputs"
  "num_freeze_ops ex_env = 0"
  "adjust_loss_weight ex_env = True"
  "operators ex_env = [0, 1, 2]"
  "LossOpNode ex_env = 2"
  "precheck_valid_input ex_env = ex_precheck"
  "construct_odtype ex_env = ex_odtype"
  "get_possible_input_idxs ex_env op_cls rng = map (\<lambda>i. [i]) rng"
  "build_program ex_env = ex_build"
  "sample_valid_program_spec ex_env = ex_sampler"
  "spec_defaults ex_env = ex_defaults"
  "template_decode ex_env dna = fst dna"
  "template_encode ex_env ps = (ps, 0)"
  "dna_spec ex_env dna = snd dna"
  "use_spec ex_env dna dspec = (fst dna, dspec)"
  "dna_clone ex_env dna = dna"
  "dna_last_value ex_env dna = hash_output (fst dna)"
  "float_add ex_env = ex_float_add"
  "float_round4 ex_env x = x"
  "seed_rng ex_env n = ex_rng [nat \<bar>n\<bar>]"
  by (simp_all add: ex_env_def)

lemma f32_bounds: "f32_min \<le> f32_max"
  by (simp add: f32_min_def f32_max_def)

lemma np_clip_Finite_range:
  "\<exists>x. np_clip (Finite u) f32_min f32_max = Finite x \<and> f32_min \<le> x \<and> x \<le> f32_max"
  using f32_bounds by (simp add: min_def max_def)

lemma np_clip_quarter: "np_clip (Finite (1 / 4)) f32_min f32_max = Finite (1 / 4)"
  by (simp add: f32_min_def f32_max_def min_def max_def)

lemma ex_sum_nan: "sum_rounded ex_env (call ex_nan_program xs) = NaN"
  by (simp add: sum_rounded_def ex_env_fields ex_nan_program_def)

lemma ex_sum_inf: "sum_rounded ex_env (call ex_inf_program xs) = PosInf"
  by (simp add: sum_rounded_def ex_env_fields ex_inf_program_def)

text \<open>
  C6. Whenever the fallback float of the mutator is a finite number (as the one
  \<^verbatim>\<open>_on_bound\<close> draws is), the fingerprint of every compiled program is a finite
  number between the least and the greatest 32-bit float, never NaN and never
  infinite; and when the sum of the rounded outputs is NaN or infinite, the
  fingerprint is the clipped fallback float.
\<close>

theorem fingerprint_is_finite_float32:
  assumes "rand_float m = Finite u"
  shows "(\<exists>x. compute_hash_output env m program = Finite x \<and> f32_min \<le> x \<and> x \<le> f32_max)
       \<and> (isnan (sum_rounded env (call program (random_inputs m)))
            \<or> isinf (sum_rounded env (call program (random_inputs m)))
          \<longrightarrow> compute_hash_output env m program = np_clip (rand_float m) f32_min f32_max)"
proof (cases "sum_rounded env (call program (random_inputs m))")
  case (Finite s)
  then show ?thesis
    using np_clip_Finite_range [of s] by (simp add: compute_hash_output_def)
next
  case PosInf
  then show ?thesis
    using assms np_clip_Finite_range [of u] by (simp add: compute_hash_output_def)
next
  case NegInf
  then show ?thesis
    using assms np_clip_Finite_range [of u] by (simp add: compute_hash_output_def)
next
  case NaN
  then show ?thesis
    using assms np_clip_Finite_range [of u] by (simp add: compute_hash_output_def)
qed

theorem fingerprint_is_finite_float32_witness:
  "rand_float ex_mutator = Finite (1 / 4)
   \<and> isnan (sum_rounded ex_env (call ex_nan_program (random_inputs ex_mutator)))
   \<and> compute_hash_output ex_env ex_mutator ex_nan_program = Finite (1 / 4)
   \<and> f32_min \<le> 1 / 4 \<and> 1 / 4 \<le> f32_max"
proof -
  have h: "rand_float ex_mutator = Finite (1 / 4)" by (simp add: ex_mutator_def)
  have b: "f32_min \<le> 1 / 4 \<and> 1 / 4 \<le> f32_max" by (simp add: f32_min_def f32_max_def)
  show ?thesis
    using fingerprint_is_finite_float32 [OF h, of ex_env ex_nan_program] h b np_clip_quarter
    by (simp add: ex_sum_nan)
qed

text \<open>The mutator that \<^verbatim>\<open>_on_bound\<close> creates has a finite fallback float in \<open>[0, 1)\<close>.\<close>

lemma random_random_range: "0 \<le> fst (random_random r) \<and> fst (random_random r) < 1"
proof -
  have "r 0 mod 2 ^ 53 < (2::nat) ^ 53" by simp
  then have "real (r 0 mod 2 ^ 53) < real ((2::nat) ^ 53)"
    by (simp only: of_nat_less_iff)
  then show ?thesis by (simp add: random_random_def)
qed

lemma on_bound_rand_float:
  "\<exists>u. rand_float (fst (on_bound env w)) = Finite u \<and> 0 \<le> u \<and> u < 1"
proof -
  obtain inputs w1 where i: "init_inputs env (input_nodes env) w = (inputs, w1)"
    by (cases "init_inputs env (input_nodes env) w")
  obtain u r' where u: "random_random (np_random w1) = (u, r')"
    by (cases "random_random (np_random w1)")
  have "0 \<le> u \<and> u < 1" using random_random_range [of "np_random w1"] u by simp
  then show ?thesis by (simp add: on_bound_def np_random_uniform_def i u)
qed

text \<open>
  C8. The duplicate check returns the fingerprint of the program, the flag that
  says whether the fingerprint is a key of \<^verbatim>\<open>output_dict\<close>, and the reward stored
  under that key when there is one, \<open>0\<close> otherwise.
\<close>

theorem check_duplicate_lookup:
  "check_duplicate env m program =
     (compute_hash_output env m program,
      compute_hash_output env m program \<in> dom (output_dict m),
      (case output_dict m (compute_hash_output env m program) of Some r \<Rightarrow> r | None \<Rightarrow> Finite 0))"
  by (auto simp: check_duplicate_def Let_def split: option.splits)

lemma update_output_dict_fields [simp]:
  "random_inputs (update_output_dict env m dna rew) = random_inputs m"
  "rand_float (update_output_dict env m dna rew) = rand_float m"
  "output_dict (update_output_dict env m dna rew) = (output_dict m)(dna_last_value env dna \<mapsto> rew)"
  by (simp_all add: update_output_dict_def)

lemma feedback_mutator_fields [simp]:
  "random_inputs (the_mutator (feedback env c d r)) = random_inputs (the_mutator c)"
  "rand_float (the_mutator (feedback env c d r)) = rand_float (the_mutator c)"
  "output_dict (the_mutator (feedback env c d r)) =
     (output_dict (the_mutator c))(dna_last_value env d \<mapsto> r)"
  by (simp_all add: feedback_def)

lemma feedbacks_mutator_fields [simp]:
  "random_inputs (the_mutator (feedbacks env c fs)) = random_inputs (the_mutator c)"
  "rand_float (the_mutator (feedbacks env c fs)) = rand_float (the_mutator c)"
  by (induction fs arbitrary: c) auto

lemma feedbacks_output_dict_recorded:
  "output_dict (the_mutator c) k = Some rew \<Longrightarrow>
   output_dict (the_mutator (feedbacks env c fs)) k = Some (recorded_reward env k rew fs)"
proof (induction fs arbitrary: c rew)
  case Nil
  then show ?case by (simp add: recorded_reward_def)
next
  case (Cons f fs)
  obtain d r where f: "f = (d, r)" by (cases f)
  let ?rew = "if dna_last_value env d = k then r else rew"
  have "output_dict (the_mutator (feedback env c d r)) k = Some ?rew"
    using Cons.prems by simp
  from Cons.IH [OF this]
  have "output_dict (the_mutator (feedbacks env c (f # fs))) k = Some (recorded_reward env k ?rew fs)"
    by (simp add: f)
  moreover have "recorded_reward env k ?rew fs = recorded_reward env k rew (f # fs)"
    by (simp add: recorded_reward_def f)
  ultimately show ?case by simp
qed

lemma compute_hash_output_cong:
  "random_inputs m' = random_inputs m \<Longrightarrow> rand_float m' = rand_float m \<Longrightarrow>
   compute_hash_output env m' p = compute_hash_output env m p"
  by (simp add: compute_hash_output_def Let_def)

lemma compute_hash_output_fallback:
  "isnan (sum_rounded env (call p (random_inputs m))) \<or>
   isinf (sum_rounded env (call p (random_inputs m))) \<Longrightarrow>
   compute_hash_output env m p = np_clip (rand_float m) f32_min f32_max"
  by (simp add: compute_hash_output_def Let_def)

text \<open>
  C10, as the code has it. Two programs whose rounded outputs both sum to NaN or
  to an infinity get the same fingerprint, the clipped fallback float. Once
  \<^verbatim>\<open>feedback\<close> has recorded a reward for a genome that carries this fingerprint,
  the duplicate check reports every such program as a duplicate, whatever
  \<^verbatim>\<open>feedback\<close> calls follow; the reward it reports is the one recorded last under
  the fingerprint, so the first reward only until a later call overwrites it.
\<close>

theorem invalid_programs_share_fingerprint:
  assumes p1: "isnan (sum_rounded env (call p1 (random_inputs (the_mutator c)))) \<or>
               isinf (sum_rounded env (call p1 (random_inputs (the_mutator c))))"
    and p2: "isnan (sum_rounded env (call p2 (random_inputs (the_mutator c)))) \<or>
             isinf (sum_rounded env (call p2 (random_inputs (the_mutator c))))"
    and fin: "rand_float (the_mutator c) = Finite u"
    and rec: "dna_last_value env dna = compute_hash_output env (the_mutator c) p1"
  shows "compute_hash_output env (the_mutator c) p1 = np_clip (Finite u) f32_min f32_max
       \<and> compute_hash_output env (the_mutator c) p2 = compute_hash_output env (the_mutator c) p1
       \<and> check_duplicate env (the_mutator (feedbacks env (feedback env c dna rew) fs)) p2
           = (compute_hash_output env (the_mutator c) p1, True,
              recorded_reward env (compute_hash_output env (the_mutator c) p1) rew fs)"
proof -
  let ?m = "the_mutator c"
  let ?m' = "the_mutator (feedbacks env (feedback env c dna rew) fs)"
  let ?fp = "compute_hash_output env ?m p1"
  have same: "compute_hash_output env ?m p2 = ?fp"
    using p1 p2 by (simp add: compute_hash_output_fallback)
  have "compute_hash_output env ?m' p2 = compute_hash_output env ?m p2"
    by (rule compute_hash_output_cong) simp_all
  then have fp': "compute_hash_output env ?m' p2 = ?fp" using same by simp
  have "output_dict (the_mutator (feedback env c dna rew)) ?fp = Some rew"
    using rec by simp
  then have "output_dict ?m' ?fp = Some (recorded_reward env ?fp rew fs)"
    by (rule feedbacks_output_dict_recorded)
  then have "check_duplicate env ?m' p2 = (?fp, True, recorded_reward env ?fp rew fs)"
    using fp' by (simp add: check_duplicate_def Let_def)
  moreover have "?fp = np_clip (Finite u) f32_min f32_max"
    using p1 fin by (simp add: compute_hash_output_fallback)
  ultimately show ?thesis using same by simp
qed

lemma ex_fp_nan: "compute_hash_output ex_env ex_mutator ex_nan_program = Finite (1 / 4)"
  using np_clip_quarter by (simp add: compute_hash_output_def ex_sum_nan ex_mutator_def)

lemma ex_ctrl_mutator: "the_mutator ex_ctrl = ex_mutator"
  by (simp add: ex_ctrl_def)

theorem invalid_programs_share_fingerprint_witness:
  "isnan (sum_rounded ex_env (call ex_nan_program (random_inputs (the_mutator ex_ctrl))))
   \<and> isinf (sum_rounded ex_env (call ex_inf_program (random_inputs (the_mutator ex_ctrl))))
   \<and> rand_float (the_mutator ex_ctrl) = Finite (1 / 4)
   \<and> dna_last_value ex_env (ex_dna (Finite (1 / 4)))
       = compute_hash_output ex_env (the_mutator ex_ctrl) ex_nan_program
   \<and> compute_hash_output ex_env (the_mutator ex_ctrl) ex_inf_program = Finite (1 / 4)
   \<and> check_duplicate ex_env
        (the_mutator (feedbacks ex_env (feedback ex_env ex_ctrl (ex_dna (Finite (1 / 4))) (Finite 7))
                        [(ex_dna (Finite 3), Finite 9), (ex_dna (Finite (1 / 4)), Finite 11)]))
        ex_inf_program
       = (Finite (1 / 4), True, Finite 11)"
proof -
  have p1: "isnan (sum_rounded ex_env (call ex_nan_program (random_inputs (the_mutator ex_ctrl)))) \<or>
            isinf (sum_rounded ex_env (call ex_nan_program (random_inputs (the_mutator ex_ctrl))))"
    by (simp add: ex_sum_nan)
  have p2: "isnan (sum_rounded ex_env (call ex_inf_program (random_inputs (the_mutator ex_ctrl)))) \<or>
            isinf (sum_rounded ex_env (call ex_inf_program (random_inputs (the_mutator ex_ctrl))))"
    by (simp add: ex_sum_inf)
  have fin: "rand_float (the_mutator ex_ctrl) = Finite (1 / 4)"
    by (simp add: ex_ctrl_mutator ex_mutator_def)
  have rec: "dna_last_value ex_env (ex_dna (Finite (1 / 4)))
               = compute_hash_output ex_env (the_mutator ex_ctrl) ex_nan_program"
    by (simp add: ex_ctrl_mutator ex_fp_nan ex_env_fields ex_dna_def)
  have r: "recorded_reward ex_env (Finite (1 / 4)) (Finite 7)
             [(ex_dna (Finite 3), Finite 9), (ex_dna (Finite (1 / 4)), Finite 11)] = Finite 11"
    by (simp add: recorded_reward_def ex_env_fields ex_dna_def)
  show ?thesis
    using invalid_programs_share_fingerprint [OF p1 p2 fin rec, of "Finite 7"
        "[(ex_dna (Finite 3), Finite 9), (ex_dna (Finite (1 / 4)), Finite 11)]"] fin rec
    by (simp add: ex_ctrl_mutator ex_fp_nan ex_sum_nan ex_sum_inf r)
qed

text \<open>
  C10, as stated, fails: the reward reported is not the one recorded for the
  first numerically invalid program once a later \<^verbatim>\<open>feedback\<close> has recorded another
  reward under the same fingerprint. After the rewards \<open>7\<close> and then \<open>9\<close> for two
  genomes that carry the fallback fingerprint, the duplicate check of an invalid
  program reports \<open>9\<close>.
\<close>

theorem later_feedback_overwrites_cached_reward:
  "isnan (sum_rounded ex_env (call ex_nan_program (random_inputs (the_mutator ex_ctrl))))
   \<and> isinf (sum_rounded ex_env (call ex_inf_program (random_inputs (the_mutator ex_ctrl))))
   \<and> compute_hash_output ex_env (the_mutator ex_ctrl) ex_nan_program = Finite (1 / 4)
   \<and> dna_last_value ex_env (ex_dna (Finite (1 / 4))) = Finite (1 / 4)
   \<and> check_duplicate ex_env
        (the_mutator (feedbacks ex_env (feedback ex_env ex_ctrl (ex_dna (Finite (1 / 4))) (Finite 7))
                        [(ex_dna (Finite (1 / 4)), Finite 9)]))
        ex_inf_program
       = (Finite (1 / 4), True, Finite 9)
   \<and> check_duplicate ex_env
        (the_mutator (feedbacks ex_env (feedback ex_env ex_ctrl (ex_dna (Finite (1 / 4))) (Finite 7))
                        [(ex_dna (Finite (1 / 4)), Finite 9)]))
        ex_inf_program
       \<noteq> (Finite (1 / 4), True, Finite 7)"
proof -
  have fp: "compute_hash_output ex_env m ex_inf_program = Finite (1 / 4)"
    if "rand_float m = Finite (1 / 4)" for m
    using that np_clip_quarter by (simp add: compute_hash_output_def ex_sum_inf)
  have c: "check_duplicate ex_env
        (the_mutator (feedbacks ex_env (feedback ex_env ex_ctrl (ex_dna (Finite (1 / 4))) (Finite 7))
                        [(ex_dna (Finite (1 / 4)), Finite 9)]))
        ex_inf_program
       = (Finite (1 / 4), True, Finite 9)"
    by (simp add: check_duplicate_def Let_def fp ex_ctrl_mutator ex_mutator_def ex_env_fields
        ex_dna_def)
  have a: "isnan (sum_rounded ex_env (call ex_nan_program (random_inputs (the_mutator ex_ctrl))))"
    by (simp add: ex_sum_nan)
  have b: "isinf (sum_rounded ex_env (call ex_inf_program (random_inputs (the_mutator ex_ctrl))))"
    by (simp add: ex_sum_inf)
  have d: "compute_hash_output ex_env (the_mutator ex_ctrl) ex_nan_program = Finite (1 / 4)"
    by (simp add: ex_ctrl_mutator ex_fp_nan)
  have e: "dna_last_value ex_env (ex_dna (Finite (1 / 4))) = Finite (1 / 4)"
    by (simp add: ex_env_fields ex_dna_def)
  show ?thesis
    unfolding c using a b d e by simp
qed

section \<open>The population\<close>

lemma evict_drop: "evict n xs = drop (length xs - n) xs"
proof (induction n xs rule: evict.induct)
  case (1 n xs)
  show ?case
  proof (cases "n < length xs")
    case True
    then have "xs \<noteq> []" by auto
    have "evict n xs = evict n (tl xs)" using True by simp
    also have "\<dots> = drop (length (tl xs) - n) (tl xs)" using 1 True by simp
    also have "\<dots> = drop (Suc (length (tl xs) - n)) xs"
      by (simp add: drop_Suc)
    also have "Suc (length (tl xs) - n) = length xs - n" using True by simp
    finally show ?thesis .
  next
    case False
    then show ?thesis by simp
  qed
qed

lemma feedback_population_size [simp]: "population_size (feedback env c d r) = population_size c"
  by (simp add: feedback_def)

lemma feedbacks_population_size [simp]: "population_size (feedbacks env c fs) = population_size c"
  by (induction fs arbitrary: c) auto

lemma feedback_population:
  "population (feedback env c d r) =
     drop (Suc (length (population c)) - population_size c)
       (population c @ [\<lparr>ind_dna = d, ind_reward = r\<rparr>])"
  by (simp add: feedback_def evict_drop del: evict.simps)

lemma drop_append_le: "a \<le> length xs \<Longrightarrow> drop a xs @ ys = drop a (xs @ ys)"
  by simp

lemma feedbacks_population:
  "length (population c) \<le> population_size c \<Longrightarrow>
   population (feedbacks env c fs) =
     drop (length (population c) + length fs - population_size c)
       (population c @ as_individuals fs)"
proof (induction fs arbitrary: c)
  case Nil
  then show ?case by (simp add: as_individuals_def)
next
  case (Cons f fs)
  obtain d r where f: "f = (d, r)" by (cases f)
  define c' where "c' = feedback env c d r"
  define x where "x = \<lparr>ind_dna = d, ind_reward = r\<rparr>"
  define a where "a = Suc (length (population c)) - population_size c"
  define every where "every = population c @ as_individuals (f # fs)"
  have pc: "population c' = drop a (population c @ [x])"
    by (simp add: c'_def x_def a_def feedback_population)
  have a_le: "a \<le> length (population c @ [x])"
    by (simp add: a_def)
  have len: "length (population c') = Suc (length (population c)) - a"
    by (simp add: pc)
  have ps: "population_size c' = population_size c"
    by (simp add: c'_def)
  have bound: "length (population c') \<le> population_size c'"
    using Cons.prems by (simp add: len a_def ps)
  have app: "population c' @ as_individuals fs = drop a every"
    using drop_append_le [OF a_le, of "as_individuals fs"]
    by (simp add: pc every_def as_individuals_def f x_def)
  have "population (feedbacks env c (f # fs)) = population (feedbacks env c' fs)"
    by (simp add: f c'_def)
  also have "\<dots> = drop (length (population c') + length fs - population_size c')
                      (population c' @ as_individuals fs)"
    using Cons.IH [OF bound] .
  also have "\<dots> = drop (Suc (length (population c)) - a + length fs - population_size c)
                      (drop a every)"
    by (simp add: app len ps)
  also have "\<dots> = drop (a + (Suc (length (population c)) - a + length fs - population_size c)) every"
    by (simp add: add.commute)
  also have "a + (Suc (length (population c)) - a + length fs - population_size c)
             = length (population c) + length (f # fs) - population_size c"
    using Cons.prems by (simp add: a_def)
  finally show ?case by (simp add: every_def)
qed

text \<open>
  C3. Starting from a population within its capacity (the empty one of
  \<^verbatim>\<open>setup\<close> is), after any run of \<^verbatim>\<open>feedback\<close> calls the population holds at most
  \<^verbatim>\<open>population_size\<close> individuals, and it is the old population followed by the
  new individuals in the order of the calls, with just enough of the oldest
  dropped from the front: eviction removes the earliest survivor and keeps the
  order of the others.
\<close>

theorem population_bounded_fifo:
  assumes "length (population c) \<le> population_size c"
  shows "length (population (feedbacks env c fs)) \<le> population_size c
       \<and> population (feedbacks env c fs) =
           drop (length (population c) + length fs - population_size c)
             (population c @ as_individuals fs)"
proof -
  have seq: "population (feedbacks env c fs) =
           drop (length (population c) + length fs - population_size c)
             (population c @ as_individuals fs)"
    using assms by (rule feedbacks_population)
  have bound: "length (population (feedbacks env c fs)) \<le> population_size c"
    using assms by (simp add: seq as_individuals_def)
  show ?thesis using bound seq by blast
qed

theorem population_bounded_fifo_witness:
  "length (population ex_ctrl) \<le> population_size ex_ctrl
   \<and> map ind_reward
        (population (feedbacks ex_env ex_ctrl
           [(ex_dna (Finite 1), Finite 1), (ex_dna (Finite 2), Finite 2), (ex_dna (Finite 3), Finite 3),
            (ex_dna (Finite 4), Finite 4), (ex_dna (Finite 5), Finite 5)]))
       = [Finite 2, Finite 3, Finite 4, Finite 5]"
proof -
  have h: "length (population ex_ctrl) \<le> population_size ex_ctrl"
    by (simp add: ex_ctrl_def)
  show ?thesis
    using population_bounded_fifo [OF h, of ex_env
        "[(ex_dna (Finite 1), Finite 1), (ex_dna (Finite 2), Finite 2), (ex_dna (Finite 3), Finite 3),
          (ex_dna (Finite 4), Finite 4), (ex_dna (Finite 5), Finite 5)]"] h
    by (simp add: ex_ctrl_def as_individuals_def)
qed

section \<open>Structural mutation: candidates and their data types\<close>

lemma scan_input_idxs_step:
  "scan_input_idxs env op_cls op_idx is_leaf otr all_inputs (input_idxs # rest) acc =
     (if \<exists>idx \<in> set input_idxs. length all_inputs \<le> idx then Inl IndexError
      else scan_input_idxs env op_cls op_idx is_leaf otr all_inputs rest
             (if accepts_candidate env is_leaf otr all_inputs op_cls input_idxs
              then acc @ [(op_idx, input_idxs)] else acc))"
  by (cases is_leaf) (simp_all add: accepts_candidate_def Let_def)

lemma scan_input_idxs_result:
  "scan_input_idxs env op_cls op_idx is_leaf otr all_inputs cands acc = Inr vl \<Longrightarrow>
   vl = acc @ map (Pair op_idx) (filter (accepts_candidate env is_leaf otr all_inputs op_cls) cands)"
proof (induction cands arbitrary: acc)
  case Nil
  then show ?case by simp
next
  case (Cons input_idxs rest)
  let ?acc = "if accepts_candidate env is_leaf otr all_inputs op_cls input_idxs
              then acc @ [(op_idx, input_idxs)] else acc"
  have "scan_input_idxs env op_cls op_idx is_leaf otr all_inputs rest ?acc = Inr vl"
    using Cons.prems unfolding scan_input_idxs_step by (simp split: if_splits)
  then have "vl = ?acc @ map (Pair op_idx)
                    (filter (accepts_candidate env is_leaf otr all_inputs op_cls) rest)"
    by (rule Cons.IH)
  then show ?case by simp
qed

lemma scan_ops_result:
  "scan_ops env is_leaf otr all_inputs ops acc = Inr vl \<Longrightarrow>
   vl = acc @ accepted_candidates env is_leaf otr all_inputs ops"
proof (induction ops arbitrary: acc)
  case Nil
  then show ?case by (simp add: accepted_candidates_def)
next
  case (Cons op_cls ops)
  from Cons.prems obtain mid where
    a: "scan_input_idxs env op_cls (index_of (operators env) op_cls) is_leaf otr all_inputs
          (get_possible_input_idxs env op_cls [0 ..< length all_inputs]) acc = Inr mid"
    and b: "scan_ops env is_leaf otr all_inputs ops mid = Inr vl"
    by (auto split: sum.splits)
  show ?case
    using scan_input_idxs_result [OF a] Cons.IH [OF b]
    by (simp add: accepted_candidates_def)
qed

lemma valid_candidates_result:
  "valid_candidates env p k = Inr vl \<Longrightarrow>
   vl = accepted_candidates env (k \<in> set (find_leaf_nodes p)) (ops_lst p ! k)
          (all_inputs_of p k) (possible_ops env)"
  using scan_ops_result [of env _ _ _ "possible_ops env" "[]" vl]
  by (simp add: valid_candidates_def)

lemma all_inputs_of_pos: "0 < k \<Longrightarrow> all_inputs_of p k = take (k - 1) (ops_lst p)"
  by (simp add: all_inputs_of_def py_slice_to_def nat_diff_distrib')

lemma all_inputs_of_zero: "all_inputs_of p 0 = butlast (ops_lst p)"
  by (simp add: all_inputs_of_def py_slice_to_def butlast_conv_take nat_diff_distrib')

lemma ex_chain_ops:
  "ops_lst (fst (ex_build ex_chain)) =
     [\<lparr>odtype = 0, is_LossOpNode = False, loss_weights = None\<rparr>,
      \<lparr>odtype = 1, is_LossOpNode = False, loss_weights = None\<rparr>,
      \<lparr>odtype = 0, is_LossOpNode = False, loss_weights = None\<rparr>,
      \<lparr>odtype = 0, is_LossOpNode = False, loss_weights = None\<rparr>,
      \<lparr>odtype = 0, is_LossOpNode = True, loss_weights = Some [1 / 2, 2]\<rparr>]"
  by (simp add: ex_build_def ex_chain_def ex_defaults_def ex_inputs_def ex_odtype_def)

lemma ex_chain_leaves: "find_leaf_nodes (fst (ex_build ex_chain)) = [1, 4]"
  by (simp add: ex_build_def ex_chain_def ex_defaults_def upt_rec [of _ "numeral n" for n] upt_rec [of _ "Suc n" for n])

lemma ex_possible_ops: "possible_ops ex_env = [0, 1]"
  by (simp add: possible_ops_def ex_env_fields)

lemma ex_chain_candidates_3: "valid_candidates ex_env (fst (ex_build ex_chain)) 3 = Inr [(0, [0])]"
  by (simp add: valid_candidates_def ex_chain_ops ex_chain_leaves ex_possible_ops
      all_inputs_of_pos ex_env_fields index_of_def ex_precheck_def ex_odtype_def
      upt_rec [of _ "numeral n" for n] upt_rec [of _ "Suc n" for n])

section \<open>Evaluating a mutation of the loss weight\<close>

lemma ex_rng_simps:
  "ex_rng (x # xs) 0 = x"
  "ex_rng [] i = 0"
  "ex_rng (x # xs) \<circ> Suc = ex_rng xs"
  "ex_rng [] \<circ> Suc = ex_rng []"
  by (auto simp: ex_rng_def fun_eq_iff)

lemma ex_chain_sample_loss:
  "sample_node_idx_to_mutate ex_env (fst (ex_build ex_chain)) (ex_rng (2 # xs))
     = Inr (4, 2, ex_loss_node, ex_rng xs)"
  by (simp add: sample_node_idx_to_mutate_def ex_chain_ops ex_env_fields ex_inputs_def
      random_choice_def randbelow_def ex_rng_simps ex_loss_node_def
      upt_rec [of _ "numeral n" for n] upt_rec [of _ "Suc n" for n])

lemma ex_chain_alter_loss:
  "alter_node_idx ex_env (program_lst ex_chain) (fst (ex_build ex_chain)) (ex_rng (2 # Suc 0 # xs))
     = Inr (ex_defaults\<lparr>program_lst := program_lst ex_chain, loss_weight := 2\<rparr>, ex_rng xs)"
  by (simp add: alter_node_idx_def ex_chain_sample_loss ex_loss_node_def alter_continuous_def
      ex_chain_ops random_choice_def randbelow_def ex_rng_simps ex_env_fields)

lemma ex_heavy_fp: "compute_hash_output ex_env m (fst (ex_build ex_heavy)) = Finite 4"
  by (simp add: compute_hash_output_def sum_rounded_def ex_env_fields ex_build_def ex_heavy_def
      ex_chain_def ex_defaults_def f32_min_def f32_max_def min_def max_def)

lemma ex_heavy_valid: "snd (ex_build ex_heavy) = True"
  by (simp add: ex_build_def ex_heavy_def ex_chain_def ex_defaults_def)

lemma ex_chain_loop_loss:
  "mutate_loop ex_env ex_seen 0 (program_lst ex_chain) (fst (ex_build ex_chain))
      \<lparr>py_random = ex_rng (2 # Suc 0 # xs), np_random = nr\<rparr>
   = Some (Inr ((\<lparr>program_lst = program_lst ex_chain, loss_weight = 2, duplicate = True,
                   reward = Finite 7, hash_output = Finite 4\<rparr>, 0),
                \<lparr>py_random = ex_rng xs, np_random = nr\<rparr>))"
  apply (subst mutate_loop.simps)
  apply (simp add: ex_chain_alter_loss ex_env_fields split_beta ex_heavy_def [symmetric]
      ex_heavy_valid check_duplicate_def ex_heavy_fp ex_seen_def)
  apply (simp add: ex_heavy_def ex_defaults_def)
  done

lemma ex_chain_mutate_loss:
  "mutate ex_env ex_seen \<lparr>py_random = ex_rng (0 # 2 # Suc 0 # xs), np_random = nr\<rparr> (ex_chain, 0)
   = Some (Inr ((\<lparr>program_lst = program_lst ex_chain, loss_weight = 2, duplicate = True,
                   reward = Finite 7, hash_output = Finite 4\<rparr>, 0), ex_seen,
                \<lparr>py_random = ex_rng xs, np_random = nr\<rparr>))"
  by (simp add: mutate_def random_random_def ex_rng_simps ex_env_fields ex_chain_loop_loss)

section \<open>The candidates of a structural mutation\<close>

text \<open>
  C7. The list of accepted candidates is exactly the list of the pairs (operator,
  input indices) that pass the operator's precheck and, unless the target is a
  leaf, whose inferred output data type is that of the node they replace. So for
  a target that is not a leaf every accepted candidate has the data type of the
  original node, and for a leaf every enumerated candidate that passes the
  precheck is accepted, whatever its data type.
\<close>

theorem structural_candidates_preserve_dtype:
  assumes "valid_candidates env p k = Inr vl"
  shows "vl = accepted_candidates env (k \<in> set (find_leaf_nodes p)) (ops_lst p ! k)
                (all_inputs_of p k) (possible_ops env)
       \<and> (k \<notin> set (find_leaf_nodes p) \<longrightarrow>
            (\<forall>(op_idx, idxs) \<in> set vl.
               \<exists>op_cls \<in> set (possible_ops env).
                 op_idx = index_of (operators env) op_cls \<and>
                 precheck_valid_input env op_cls (map (\<lambda>i. all_inputs_of p k ! i) idxs) \<and>
                 construct_odtype env op_cls idxs
                   (map odtype (map (\<lambda>i. all_inputs_of p k ! i) idxs)) = odtype (ops_lst p ! k)))
       \<and> (k \<in> set (find_leaf_nodes p) \<longrightarrow>
            (\<forall>op_cls \<in> set (possible_ops env).
               \<forall>idxs \<in> set (get_possible_input_idxs env op_cls [0 ..< length (all_inputs_of p k)]).
                 precheck_valid_input env op_cls (map (\<lambda>i. all_inputs_of p k ! i) idxs) \<longrightarrow>
                 (index_of (operators env) op_cls, idxs) \<in> set vl))"
proof -
  have vl: "vl = accepted_candidates env (k \<in> set (find_leaf_nodes p)) (ops_lst p ! k)
                (all_inputs_of p k) (possible_ops env)"
    using assms by (rule valid_candidates_result)
  have nonleaf: "k \<notin> set (find_leaf_nodes p) \<longrightarrow>
            (\<forall>(op_idx, idxs) \<in> set vl.
               \<exists>op_cls \<in> set (possible_ops env).
                 op_idx = index_of (operators env) op_cls \<and>
                 precheck_valid_input env op_cls (map (\<lambda>i. all_inputs_of p k ! i) idxs) \<and>
                 construct_odtype env op_cls idxs
                   (map odtype (map (\<lambda>i. all_inputs_of p k ! i) idxs)) = odtype (ops_lst p ! k))"
    unfolding vl by (auto simp: accepted_candidates_def accepts_candidate_def)
  have leaf: "k \<in> set (find_leaf_nodes p) \<longrightarrow>
            (\<forall>op_cls \<in> set (possible_ops env).
               \<forall>idxs \<in> set (get_possible_input_idxs env op_cls [0 ..< length (all_inputs_of p k)]).
                 precheck_valid_input env op_cls (map (\<lambda>i. all_inputs_of p k ! i) idxs) \<longrightarrow>
                 (index_of (operators env) op_cls, idxs) \<in> set vl)"
    unfolding vl by (auto simp: accepted_candidates_def accepts_candidate_def)
  show ?thesis using vl nonleaf leaf by blast
qed

lemma ex_leafy_ops:
  "ops_lst (fst (ex_build ex_leafy)) =
     [\<lparr>odtype = 0, is_LossOpNode = False, loss_weights = None\<rparr>,
      \<lparr>odtype = 1, is_LossOpNode = False, loss_weights = None\<rparr>,
      \<lparr>odtype = 0, is_LossOpNode = False, loss_weights = None\<rparr>,
      \<lparr>odtype = 0, is_LossOpNode = False, loss_weights = None\<rparr>,
      \<lparr>odtype = 0, is_LossOpNode = True, loss_weights = Some [1 / 2, 2]\<rparr>]"
  by (simp add: ex_build_def ex_leafy_def ex_defaults_def ex_inputs_def ex_odtype_def)

lemma ex_leafy_leaves: "find_leaf_nodes (fst (ex_build ex_leafy)) = [1, 3, 4]"
  by (simp add: ex_build_def ex_leafy_def ex_defaults_def upt_rec [of _ "numeral n" for n] upt_rec [of _ "Suc n" for n])

lemma ex_leafy_candidates_3:
  "valid_candidates ex_env (fst (ex_build ex_leafy)) 3 = Inr [(0, [0]), (0, [1]), (1, [0])]"
  by (simp add: valid_candidates_def ex_leafy_ops ex_leafy_leaves ex_possible_ops
      all_inputs_of_pos ex_env_fields index_of_def ex_precheck_def ex_odtype_def
      upt_rec [of _ "numeral n" for n] upt_rec [of _ "Suc n" for n])

theorem structural_candidates_preserve_dtype_witness:
  "valid_candidates ex_env (fst (ex_build ex_chain)) 3 = Inr [(0, [0])]
   \<and> 3 \<notin> set (find_leaf_nodes (fst (ex_build ex_chain)))
   \<and> construct_odtype ex_env 0 [0]
        (map odtype (map (\<lambda>i. all_inputs_of (fst (ex_build ex_chain)) 3 ! i) [0]))
       = odtype (ops_lst (fst (ex_build ex_chain)) ! 3)
   \<and> valid_candidates ex_env (fst (ex_build ex_leafy)) 3 = Inr [(0, [0]), (0, [1]), (1, [0])]
   \<and> 3 \<in> set (find_leaf_nodes (fst (ex_build ex_leafy)))
   \<and> construct_odtype ex_env 1 [0]
        (map odtype (map (\<lambda>i. all_inputs_of (fst (ex_build ex_leafy)) 3 ! i) [0]))
       \<noteq> odtype (ops_lst (fst (ex_build ex_leafy)) ! 3)"
  using structural_candidates_preserve_dtype [OF ex_chain_candidates_3]
        structural_candidates_preserve_dtype [OF ex_leafy_candidates_3]
  by (simp add: ex_chain_candidates_3 ex_leafy_candidates_3 ex_chain_leaves ex_leafy_leaves
      ex_chain_ops ex_leafy_ops all_inputs_of_pos ex_env_fields ex_odtype_def)

text \<open>
  C1. The candidate inputs of a target at index \<open>k\<close> are \<^verbatim>\<open>ops_lst[:k - 1]\<close>, the
  nodes at indices \<open>0\<close> to \<open>k - 2\<close>: the node just before the target is left
  out. In the program \<open>ex_chain\<close>, of five nodes, the candidates for target \<open>3\<close>
  are the two input nodes; node \<open>2\<close>, which node \<open>3\<close> reads in the parent, is not
  among them, and no accepted candidate reads it.
\<close>

theorem all_inputs_omit_last_predecessor:
  "ops_lst (fst (ex_build ex_chain)) ! 3 = \<lparr>odtype = 0, is_LossOpNode = False, loss_weights = None\<rparr>
   \<and> all_inputs_of (fst (ex_build ex_chain)) 3 = take 2 (ops_lst (fst (ex_build ex_chain)))
   \<and> all_inputs_of (fst (ex_build ex_chain)) 3 \<noteq> take 3 (ops_lst (fst (ex_build ex_chain)))
   \<and> program_lst ex_chain ! 1 = (0, [2])
   \<and> valid_candidates ex_env (fst (ex_build ex_chain)) 3 = Inr [(0, [0])]"
proof -
  have a: "ops_lst (fst (ex_build ex_chain)) ! 3
             = \<lparr>odtype = 0, is_LossOpNode = False, loss_weights = None\<rparr>"
    by (simp add: ex_chain_ops)
  have b: "all_inputs_of (fst (ex_build ex_chain)) 3 = take 2 (ops_lst (fst (ex_build ex_chain)))"
    by (simp add: all_inputs_of_pos)
  have c: "all_inputs_of (fst (ex_build ex_chain)) 3 \<noteq> take 3 (ops_lst (fst (ex_build ex_chain)))"
    by (simp add: all_inputs_of_pos ex_chain_ops)
  have d: "program_lst ex_chain ! 1 = (0, [2])"
    by (simp add: ex_chain_def)
  show ?thesis using a b c d ex_chain_candidates_3 by blast
qed

section \<open>Mutating the loss weight\<close>

lemma alter_node_idx_loss:
  assumes "sample_node_idx_to_mutate env loss_program r = Inr (node_idx, n_idx, op_to_replace, r1)"
    and "is_LossOpNode op_to_replace"
  shows "alter_node_idx env prog_lst loss_program r = alter_continuous env prog_lst loss_program r1"
  using assms by (simp add: alter_node_idx_def)

lemma random_choice_mem: "random_choice r xs = Inr (x, r') \<Longrightarrow> x \<in> set xs"
  by (auto simp: random_choice_def randbelow_def split: if_splits)

lemma alter_continuous_result:
  assumes "alter_continuous env prog_lst loss_program r = Inr (new_spec, r')"
  shows "program_lst new_spec = prog_lst
       \<and> (\<exists>ws. loss_weights (last (ops_lst loss_program)) = Some ws \<and> loss_weight new_spec \<in> set ws)
       \<and> new_spec = (spec_defaults env)\<lparr>program_lst := prog_lst, loss_weight := loss_weight new_spec\<rparr>"
  using assms
  by (auto simp: alter_continuous_def split: if_splits option.splits sum.splits
      dest: random_choice_mem)

text \<open>
  C2, as the code has it. In an iteration of the loop of \<^verbatim>\<open>mutate\<close> whose sampled
  target is the loss node, the altered specification keeps the program list and
  takes a loss weight from the allowed values of the last node. The iteration
  does not return at once: the program is rebuilt; when the builder reports it
  invalid the loop starts over with a new target, and otherwise the duplicate
  check runs on the rebuilt program and the genome returned carries its
  fingerprint, duplicate flag and cached reward.
\<close>

theorem loss_node_mutation_is_rechecked:
  assumes sample: "sample_node_idx_to_mutate env loss_program (py_random w)
                     = Inr (node_idx, n_idx, op_to_replace, r1)"
    and loss: "is_LossOpNode op_to_replace"
    and alter: "alter_continuous env prog_lst loss_program r1 = Inr (new_spec, r2)"
  shows "alter_node_idx env prog_lst loss_program (py_random w) = Inr (new_spec, r2)
       \<and> program_lst new_spec = prog_lst
       \<and> (\<exists>ws. loss_weights (last (ops_lst loss_program)) = Some ws \<and> loss_weight new_spec \<in> set ws)
       \<and> mutate_loop env m old_spec prog_lst loss_program w =
           (if \<not> snd (build_program env new_spec)
            then mutate_loop env m old_spec prog_lst loss_program (w\<lparr>py_random := r2\<rparr>)
            else Some (Inr (use_spec env
                              (template_encode env
                                 \<lparr>program_lst = prog_lst,
                                  loss_weight = loss_weight new_spec,
                                  duplicate = fst (snd (check_duplicate env m (fst (build_program env new_spec)))),
                                  reward = snd (snd (check_duplicate env m (fst (build_program env new_spec)))),
                                  hash_output = fst (check_duplicate env m (fst (build_program env new_spec)))\<rparr>)
                              old_spec,
                            w\<lparr>py_random := r2\<rparr>)))"
proof -
  have a: "alter_node_idx env prog_lst loss_program (py_random w) = Inr (new_spec, r2)"
    using alter_node_idx_loss [OF sample loss] alter by simp
  have p: "program_lst new_spec = prog_lst"
    and ws: "\<exists>ws. loss_weights (last (ops_lst loss_program)) = Some ws \<and> loss_weight new_spec \<in> set ws"
    using alter_continuous_result [OF alter] by blast+
  have l: "mutate_loop env m old_spec prog_lst loss_program w =
           (if \<not> snd (build_program env new_spec)
            then mutate_loop env m old_spec prog_lst loss_program (w\<lparr>py_random := r2\<rparr>)
            else Some (Inr (use_spec env
                              (template_encode env
                                 \<lparr>program_lst = prog_lst,
                                  loss_weight = loss_weight new_spec,
                                  duplicate = fst (snd (check_duplicate env m (fst (build_program env new_spec)))),
                                  reward = snd (snd (check_duplicate env m (fst (build_program env new_spec)))),
                                  hash_output = fst (check_duplicate env m (fst (build_program env new_spec)))\<rparr>)
                              old_spec,
                            w\<lparr>py_random := r2\<rparr>)))"
    by (subst mutate_loop.simps) (simp add: a p split_beta)
  show ?thesis using a p ws l by blast
qed

lemma mutate_keeps_mutator:
  "mutate env m w dna = Some (Inr (d, m', w')) \<Longrightarrow> m' = m"
  by (auto simp: mutate_def Let_def split: prod.splits if_splits option.splits sum.splits)

lemma draw_tournament_frame:
  "draw_tournament c w = Some (Inr (t, c', w')) \<Longrightarrow>
   the_mutator c' = the_mutator c \<and> population c' = population c
   \<and> ctrl_dna_spec c' = ctrl_dna_spec c \<and> population_size c' = population_size c
   \<and> tournament_size c' = tournament_size c"
  by (auto simp: draw_tournament_def split: option.splits sum.splits)

lemma propose_frame:
  "propose env c w = Some (Inr (d, c', w')) \<Longrightarrow>
   the_mutator c' = the_mutator c \<and> population c' = population c"
  by (auto simp: propose_def Let_def
      split: prod.splits if_splits option.splits sum.splits
      dest!: draw_tournament_frame mutate_keeps_mutator)

section \<open>Sampling without replacement\<close>




lemma randbelow_less: "0 < n \<Longrightarrow> fst (randbelow r n) < n"
  by (simp add: randbelow_def)


text \<open>Sampling a list of images is sampling the list and taking the images.\<close>

lemma sample_pool_map:
  "k \<le> length xs \<Longrightarrow>
   sample_pool r (map f xs) k = (map f (fst (sample_pool r xs k)), snd (sample_pool r xs k))"
proof (induction k arbitrary: r xs)
  case 0
  then show ?case by simp
next
  case (Suc k)
  obtain j r1 where rb: "randbelow r (length xs) = (j, r1)"
    by (cases "randbelow r (length xs)")
  have ne: "xs \<noteq> []" using Suc.prems by auto
  then have pos: "0 < length xs" by simp
  have j: "j < length xs" using randbelow_less [OF pos, of r] rb by simp
  let ?xs = "butlast (xs[j := last xs])"
  have pm: "butlast ((map f xs)[j := last (map f xs)]) = map f ?xs"
    using ne by (simp add: last_map map_update map_butlast)
  have "k \<le> length ?xs" using Suc.prems by simp
  from Suc.IH [OF this, of r1]
  show ?case using j by (simp add: rb pm split_beta)
qed



text \<open>The position that the rejection loop returns is in range and was not selected before.\<close>

lemma draw_unselected_props:
  assumes "draw_unselected r n selected = Some y"
  shows "0 < n \<longrightarrow> fst y < n \<and> fst y \<notin> set selected"
proof (rule draw_unselected.raw_induct
    [of "\<lambda>r n selected y. 0 < n \<longrightarrow> fst y < n \<and> fst y \<notin> set selected" r n selected y])
  fix f :: "rng \<Rightarrow> nat \<Rightarrow> nat list \<Rightarrow> (nat \<times> rng) option"
  fix r n selected y
  assume IH: "\<And>r n selected y. f r n selected = Some y \<Longrightarrow>
                 0 < n \<longrightarrow> fst y < n \<and> fst y \<notin> set selected"
    and body: "(case randbelow r n of
                  (j, r') \<Rightarrow> if j \<in> set selected then f r' n selected else Some (j, r')) = Some y"
  show "0 < n \<longrightarrow> fst y < n \<and> fst y \<notin> set selected"
  proof (cases "r 0 mod n \<in> set selected")
    case True
    then have "f (r \<circ> Suc) n selected = Some y"
      using body by (simp add: randbelow_def)
    then show ?thesis by (rule IH)
  next
    case False
    then have "y = (r 0 mod n, r \<circ> Suc)"
      using body by (simp add: randbelow_def)
    then show ?thesis using False by simp
  qed
next
  show "draw_unselected r n selected = Some y" by fact
qed


lemma sample_selected_map:
  "0 < length xs \<Longrightarrow>
   sample_selected r (map f xs) k selected =
     (case sample_selected r xs k selected of
        None \<Rightarrow> None
      | Some (ps, g) \<Rightarrow> Some (map f ps, g))"
proof (induction k arbitrary: r selected)
  case 0
  then show ?case by simp
next
  case (Suc k)
  show ?case
  proof (cases "draw_unselected r (length xs) selected")
    case None
    then show ?thesis by simp
  next
    case (Some y)
    obtain j r1 where y: "y = (j, r1)" by (cases y)
    have j: "j < length xs"
      using draw_unselected_props [OF Some] Suc.prems y by simp
    show ?thesis
      using Suc.IH [OF Suc.prems, of r1 "j # selected"] j
      by (simp add: Some y split: option.splits)
  qed
qed






text \<open>A sample of a list is the list read at the sampled positions.\<close>

lemma random_sample_positions:
  assumes "k \<le> length pop"
  shows "random_sample r pop k =
           (case sample_positions r (length pop) k of
              None \<Rightarrow> None
            | Some (ps, g) \<Rightarrow> Some (Inr (map (\<lambda>i. pop ! i) ps, g)))"
proof (cases "length pop \<le> sample_setsize k")
  case True
  have "k \<le> length [0 ..< length pop]" using assms by simp
  from sample_pool_map [OF this, of r "\<lambda>i. pop ! i"]
  have "sample_pool r pop k =
          (map (\<lambda>i. pop ! i) (fst (sample_pool r [0 ..< length pop] k)),
           snd (sample_pool r [0 ..< length pop] k))"
    by (simp add: map_nth)
  then show ?thesis
    using True assms by (simp add: random_sample_def sample_positions_def split_beta)
next
  case False
  then have pos: "0 < length [0 ..< length pop]" by (cases pop) simp_all
  from sample_selected_map [OF pos, of r "\<lambda>i. pop ! i" k "[]"]
  have "sample_selected r pop k [] =
          (case sample_selected r [0 ..< length pop] k [] of
             None \<Rightarrow> None
           | Some (ps, g) \<Rightarrow> Some (map (\<lambda>i. pop ! i) ps, g))"
    by (simp add: map_nth)
  then show ?thesis
    using False assms
    by (simp add: random_sample_def sample_positions_def split: option.splits)
qed

section \<open>Selecting the best of a tournament\<close>








text \<open>The tournament is the population read at the positions the sample takes.\<close>

lemma draw_tournament_positions:
  assumes "tournament_size c \<le> length (population c)"
  shows "draw_tournament c w =
           (case sample_positions (tournament_rng c w) (length (population c)) (tournament_size c) of
              None \<Rightarrow> None
            | Some (ps, g) \<Rightarrow>
                Some (Inr (map (\<lambda>i. population c ! i) ps,
                           fst (store_tournament_rng c w g), snd (store_tournament_rng c w g))))"
  by (cases "random_src c")
     (simp_all add: draw_tournament_def tournament_rng_def store_tournament_rng_def
        random_sample_positions [OF assms] split: option.splits)


lemma propose_steady:
  assumes "length (population c) = population_size c"
    and "draw_tournament c w = Some (Inr (t, c', w'))"
    and "py_max ind_reward t = Inr selected"
  shows "propose env c w =
           (case mutate env (the_mutator c') w'
                   (use_spec env (dna_clone env (ind_dna selected)) (ctrl_dna_spec c')) of
              None \<Rightarrow> None
            | Some (Inl e) \<Rightarrow> Some (Inl e)
            | Some (Inr (d, m', w'')) \<Rightarrow> Some (Inr (d, c'\<lparr>the_mutator := m'\<rparr>, w'')))"
  using assms by (simp add: propose_def)

lemma propose_warmup:
  assumes "length (population c) < population_size c"
  shows "propose env c w =
           Some (Inr (use_spec env (template_encode env (fst (sample_valid_program_spec env w)))
                        (ctrl_dna_spec c),
                      c, snd (sample_valid_program_spec env w)))"
  using assms by (simp add: propose_def split_beta)

section \<open>Evaluating proposals of the example controller\<close>

lemma ex_light_fp: "compute_hash_output ex_env m (fst (ex_build ex_light)) = Finite (5 / 2)"
  by (simp add: compute_hash_output_def sum_rounded_def ex_env_fields ex_build_def ex_light_def
      ex_chain_def ex_defaults_def f32_min_def f32_max_def min_def max_def)

lemma ex_light_valid: "snd (ex_build ex_light) = True"
  by (simp add: ex_build_def ex_light_def ex_chain_def ex_defaults_def)

lemma ex_chain_alter_light:
  "alter_node_idx ex_env (program_lst ex_chain) (fst (ex_build ex_chain)) (ex_rng (2 # 0 # xs))
     = Inr (ex_light, ex_rng xs)"
  by (simp add: alter_node_idx_def ex_chain_sample_loss ex_loss_node_def alter_continuous_def
      ex_chain_ops random_choice_def randbelow_def ex_rng_simps ex_env_fields ex_light_def)

lemma ex_chain_loop_fresh_heavy:
  "output_dict m (Finite 4) = None \<Longrightarrow>
   mutate_loop ex_env m dspec (program_lst ex_chain) (fst (ex_build ex_chain))
      \<lparr>py_random = ex_rng (2 # Suc 0 # xs), np_random = nr\<rparr>
   = Some (Inr ((\<lparr>program_lst = program_lst ex_chain, loss_weight = 2, duplicate = False,
                   reward = Finite 0, hash_output = Finite 4\<rparr>, dspec),
                \<lparr>py_random = ex_rng xs, np_random = nr\<rparr>))"
  apply (subst mutate_loop.simps)
  apply (simp add: ex_chain_alter_loss ex_env_fields split_beta ex_heavy_def [symmetric]
      ex_heavy_valid check_duplicate_def ex_heavy_fp)
  apply (simp add: ex_heavy_def ex_defaults_def)
  done

lemma ex_chain_loop_fresh_light:
  "output_dict m (Finite (5 / 2)) = None \<Longrightarrow>
   mutate_loop ex_env m dspec (program_lst ex_chain) (fst (ex_build ex_chain))
      \<lparr>py_random = ex_rng (2 # 0 # xs), np_random = nr\<rparr>
   = Some (Inr ((\<lparr>program_lst = program_lst ex_chain, loss_weight = 1 / 2, duplicate = False,
                   reward = Finite 0, hash_output = Finite (5 / 2)\<rparr>, dspec),
                \<lparr>py_random = ex_rng xs, np_random = nr\<rparr>))"
  apply (subst mutate_loop.simps)
  apply (simp add: ex_chain_alter_light ex_env_fields split_beta
      ex_light_valid check_duplicate_def ex_light_fp)
  apply (simp add: ex_light_def ex_defaults_def)
  done

lemma ex_chain_mutate_fresh_heavy:
  "output_dict m (Finite 4) = None \<Longrightarrow>
   mutate ex_env m \<lparr>py_random = ex_rng (0 # 2 # Suc 0 # xs), np_random = nr\<rparr> (ex_chain, dspec)
   = Some (Inr ((\<lparr>program_lst = program_lst ex_chain, loss_weight = 2, duplicate = False,
                   reward = Finite 0, hash_output = Finite 4\<rparr>, dspec), m,
                \<lparr>py_random = ex_rng xs, np_random = nr\<rparr>))"
  by (simp add: mutate_def random_random_def ex_rng_simps ex_env_fields ex_chain_loop_fresh_heavy)

lemma ex_chain_mutate_fresh_light:
  "output_dict m (Finite (5 / 2)) = None \<Longrightarrow>
   mutate ex_env m \<lparr>py_random = ex_rng (0 # 2 # 0 # xs), np_random = nr\<rparr> (ex_chain, dspec)
   = Some (Inr ((\<lparr>program_lst = program_lst ex_chain, loss_weight = 1 / 2, duplicate = False,
                   reward = Finite 0, hash_output = Finite (5 / 2)\<rparr>, dspec), m,
                \<lparr>py_random = ex_rng xs, np_random = nr\<rparr>))"
  by (simp add: mutate_def random_random_def ex_rng_simps ex_env_fields ex_chain_loop_fresh_light)

lemma ex_setup: "setup_controller ex_env 4 2 (Some 1) ex_mutator 0 = Inr ex_ctrl"
  by (simp add: setup_controller_def ex_ctrl_def ex_env_fields)

lemma ex_full_eq:
  "ex_full = \<lparr>population_size = 4, tournament_size = 2, seed = Some 1,
              the_mutator = ex_mutator\<lparr>output_dict := [Finite 0 \<mapsto> Finite 4]\<rparr>, ctrl_dna_spec = 0,
              population =
                [\<lparr>ind_dna = (ex_chain, 0), ind_reward = Finite 1\<rparr>,
                 \<lparr>ind_dna = (ex_chain, 0), ind_reward = Finite 2\<rparr>,
                 \<lparr>ind_dna = (ex_leafy, 0), ind_reward = Finite 3\<rparr>,
                 \<lparr>ind_dna = (ex_leafy, 0), ind_reward = Finite 4\<rparr>],
              random_src = Some (ex_rng [1])\<rparr>"
  by (simp add: ex_full_def ex_ctrl_def feedback_def update_output_dict_def ex_env_fields
      ex_chain_def ex_leafy_def ex_defaults_def ex_mutator_def)

lemma ex_sample_4_2: "sample_positions (ex_rng [Suc 0]) 4 2 = Some ([Suc 0, 0], ex_rng [])"
  by (simp add: sample_positions_def sample_setsize_def randbelow_def ex_rng_simps numeral_2_eq_2
      upt_rec [of _ "numeral n" for n] upt_rec [of _ "Suc n" for n])

lemma ex_full_fields:
  "population_size ex_full = 4" "tournament_size ex_full = 2"
  "length (population ex_full) = 4" "random_src ex_full = Some (ex_rng [1])"
  "ctrl_dna_spec ex_full = 0" "output_dict (the_mutator ex_full) = [Finite 0 \<mapsto> Finite 4]"
  by (simp_all add: ex_full_eq)

lemma ex_full_tournament:
  "draw_tournament ex_full w =
     Some (Inr ([\<lparr>ind_dna = (ex_chain, 0), ind_reward = Finite 2\<rparr>,
                 \<lparr>ind_dna = (ex_chain, 0), ind_reward = Finite 1\<rparr>],
                ex_full\<lparr>random_src := Some (ex_rng [])\<rparr>, w))"
proof -
  have l: "tournament_size ex_full \<le> length (population ex_full)" by (simp add: ex_full_fields)
  show ?thesis
    unfolding draw_tournament_positions [OF l]
    by (simp add: ex_full_fields tournament_rng_def store_tournament_rng_def ex_sample_4_2)
       (simp add: ex_full_eq)
qed

lemma ex_full_selected:
  "py_max ind_reward
     [\<lparr>ind_dna = (ex_chain, 0::nat), ind_reward = Finite 2\<rparr>,
      \<lparr>ind_dna = (ex_chain, 0), ind_reward = Finite 1\<rparr>]
   = Inr \<lparr>ind_dna = (ex_chain, 0), ind_reward = Finite 2\<rparr>"
  by (simp add: py_max_def)

lemma ex_full_propose1:
  "propose ex_env ex_full ex_world1 =
     Some (Inr ((\<lparr>program_lst = program_lst ex_chain, loss_weight = 2, duplicate = False,
                   reward = Finite 0, hash_output = Finite 4\<rparr>, 0),
                ex_full\<lparr>random_src := Some (ex_rng [])\<rparr>,
                \<lparr>py_random = ex_rng [], np_random = ex_rng []\<rparr>))"
proof -
  have s: "length (population ex_full) = population_size ex_full" by (simp add: ex_full_fields)
  have m: "mutate ex_env (the_mutator ex_full) ex_world1 (ex_chain, 0) =
     Some (Inr ((\<lparr>program_lst = program_lst ex_chain, loss_weight = 2, duplicate = False,
                   reward = Finite 0, hash_output = Finite 4\<rparr>, 0), the_mutator ex_full,
                \<lparr>py_random = ex_rng [], np_random = ex_rng []\<rparr>))"
    unfolding ex_world1_def
    by (rule ex_chain_mutate_fresh_heavy) (simp add: ex_full_fields)
  show ?thesis
    using propose_steady [OF s ex_full_tournament ex_full_selected, of ex_env ex_world1]
    by (simp add: ex_env_fields ex_full_fields m)
qed

lemma ex_full_propose2:
  "propose ex_env ex_full ex_world2 =
     Some (Inr ((\<lparr>program_lst = program_lst ex_chain, loss_weight = 1 / 2, duplicate = False,
                   reward = Finite 0, hash_output = Finite (5 / 2)\<rparr>, 0),
                ex_full\<lparr>random_src := Some (ex_rng [])\<rparr>,
                \<lparr>py_random = ex_rng [], np_random = ex_rng []\<rparr>))"
proof -
  have s: "length (population ex_full) = population_size ex_full" by (simp add: ex_full_fields)
  have m: "mutate ex_env (the_mutator ex_full) ex_world2 (ex_chain, 0) =
     Some (Inr ((\<lparr>program_lst = program_lst ex_chain, loss_weight = 1 / 2, duplicate = False,
                   reward = Finite 0, hash_output = Finite (5 / 2)\<rparr>, 0), the_mutator ex_full,
                \<lparr>py_random = ex_rng [], np_random = ex_rng []\<rparr>))"
    unfolding ex_world2_def
    by (rule ex_chain_mutate_fresh_light) (simp add: ex_full_fields)
  show ?thesis
    using propose_steady [OF s ex_full_tournament ex_full_selected, of ex_env ex_world2]
    by (simp add: ex_env_fields ex_full_fields m)
qed

lemma ex_ctrl_propose:
  "propose ex_env ex_ctrl ex_world1 =
     Some (Inr ((ex_defaults\<lparr>program_lst := [(0, [0]), (0, [0]), (2, [3])]\<rparr>, 0), ex_ctrl, ex_world1))"
  by (simp add: propose_def ex_ctrl_def ex_env_fields ex_sampler_def ex_world1_def ex_rng_simps)






section \<open>Proposals\<close>




section \<open>What a mutation leaves unchanged\<close>

text \<open>
  C9. A call of \<^verbatim>\<open>mutate\<close> that returns leaves every attribute of the mutator,
  the fingerprint-to-reward mapping among them, as it was; a call of \<^verbatim>\<open>propose\<close>
  that returns leaves the mutator and the population as they were; \<^verbatim>\<open>feedback\<close>
  writes exactly one entry of the mapping, the reward under the fingerprint the
  genome carries. (The draws of \<^verbatim>\<open>mutate\<close> and \<^verbatim>\<open>propose\<close> advance the random
  generators, which the model passes along separately.)
\<close>

theorem tracker_written_only_by_feedback:
  "(mutate env m w dna = Some (Inr (d, m', w')) \<longrightarrow> m' = m)
   \<and> (propose env c v = Some (Inr (g, c', v')) \<longrightarrow>
        the_mutator c' = the_mutator c \<and> population c' = population c)
   \<and> output_dict (the_mutator (feedback env c fed rew))
       = (output_dict (the_mutator c))(dna_last_value env fed \<mapsto> rew)"
  using mutate_keeps_mutator [of env m w dna d m' w'] propose_frame [of env c v g c' v']
  by simp

lemma ex_seen_mutate:
  "mutate ex_env ex_seen ex_world1 (ex_chain, 0)
   = Some (Inr ((\<lparr>program_lst = program_lst ex_chain, loss_weight = 2, duplicate = True,
                   reward = Finite 7, hash_output = Finite 4\<rparr>, 0), ex_seen,
                \<lparr>py_random = ex_rng [], np_random = ex_rng []\<rparr>))"
  unfolding ex_world1_def by (rule ex_chain_mutate_loss)

theorem tracker_written_only_by_feedback_witness:
  "mutate ex_env ex_seen ex_world1 (ex_chain, 0)
     = Some (Inr ((\<lparr>program_lst = program_lst ex_chain, loss_weight = 2, duplicate = True,
                     reward = Finite 7, hash_output = Finite 4\<rparr>, 0), ex_seen,
                  \<lparr>py_random = ex_rng [], np_random = ex_rng []\<rparr>))
   \<and> propose ex_env ex_ctrl ex_world1
     = Some (Inr ((ex_defaults\<lparr>program_lst := [(0, [0]), (0, [0]), (2, [3])]\<rparr>, 0), ex_ctrl, ex_world1))
   \<and> output_dict (the_mutator (feedback ex_env ex_ctrl (ex_dna (Finite 4)) (Finite 7))) (Finite 4) = Some (Finite 7)
   \<and> output_dict (the_mutator ex_ctrl) (Finite 4) = None"
  using tracker_written_only_by_feedback [of ex_env ex_seen ex_world1 "(ex_chain, 0)"
      "(\<lparr>program_lst = program_lst ex_chain, loss_weight = 2, duplicate = True,
          reward = Finite 7, hash_output = Finite 4\<rparr>, 0)" ex_seen
      "\<lparr>py_random = ex_rng [], np_random = ex_rng []\<rparr>" ex_ctrl ex_world1
      "(ex_defaults\<lparr>program_lst := [(0, [0]), (0, [0]), (2, [3])]\<rparr>, 0)" ex_ctrl ex_world1
      "ex_dna (Finite 4)" "Finite 7"]
    ex_seen_mutate ex_ctrl_propose
  by (simp add: ex_env_fields ex_dna_def ex_ctrl_def ex_mutator_def)

lemma ex_chain_alter_continuous:
  "alter_continuous ex_env (program_lst ex_chain) (fst (ex_build ex_chain)) (ex_rng (Suc 0 # xs))
     = Inr (ex_heavy, ex_rng xs)"
  by (simp add: alter_continuous_def ex_chain_ops random_choice_def randbelow_def ex_rng_simps
      ex_env_fields ex_heavy_def)

theorem loss_node_mutation_is_rechecked_witness:
  "sample_node_idx_to_mutate ex_env (fst (ex_build ex_chain))
       (py_random \<lparr>py_random = ex_rng [2, Suc 0], np_random = ex_rng []\<rparr>)
     = Inr (4, 2, ex_loss_node, ex_rng [Suc 0])
   \<and> is_LossOpNode ex_loss_node
   \<and> alter_continuous ex_env (program_lst ex_chain) (fst (ex_build ex_chain)) (ex_rng [Suc 0])
     = Inr (ex_heavy, ex_rng [])
   \<and> snd (build_program ex_env ex_heavy)
   \<and> check_duplicate ex_env ex_seen (fst (build_program ex_env ex_heavy)) = (Finite 4, True, Finite 7)
   \<and> mutate_loop ex_env ex_seen 0 (program_lst ex_chain) (fst (ex_build ex_chain))
        \<lparr>py_random = ex_rng [2, Suc 0], np_random = ex_rng []\<rparr>
     = Some (Inr ((\<lparr>program_lst = program_lst ex_chain, loss_weight = 2, duplicate = True,
                     reward = Finite 7, hash_output = Finite 4\<rparr>, 0),
                  \<lparr>py_random = ex_rng [], np_random = ex_rng []\<rparr>))"
proof -
  let ?w = "\<lparr>py_random = ex_rng [2, Suc 0], np_random = ex_rng []\<rparr>"
  have s: "sample_node_idx_to_mutate ex_env (fst (ex_build ex_chain)) (py_random ?w)
             = Inr (4, 2, ex_loss_node, ex_rng [Suc 0])"
    by (simp add: ex_chain_sample_loss)
  have l: "is_LossOpNode ex_loss_node" by (simp add: ex_loss_node_def)
  have a: "alter_continuous ex_env (program_lst ex_chain) (fst (ex_build ex_chain)) (ex_rng [Suc 0])
             = Inr (ex_heavy, ex_rng [])"
    by (rule ex_chain_alter_continuous)
  have v: "snd (build_program ex_env ex_heavy)"
    by (simp add: ex_env_fields ex_heavy_valid)
  have c: "check_duplicate ex_env ex_seen (fst (build_program ex_env ex_heavy)) = (Finite 4, True, Finite 7)"
    by (simp add: check_duplicate_def ex_env_fields ex_heavy_fp ex_seen_def)
  have lw: "loss_weight ex_heavy = 2" by (simp add: ex_heavy_def)
  show ?thesis
    using loss_node_mutation_is_rechecked [OF s l a, of ex_seen 0] s l a v c lw
    by (simp add: ex_env_fields(14,16))
qed

text \<open>
  C2, as stated, fails: with the loss node as target, \<^verbatim>\<open>mutate\<close> does not hand back
  the specification that \<^verbatim>\<open>_alter_continuous\<close> built. For a mutator that has seen
  the fingerprint \<open>4\<close> with reward \<open>7\<close>, the genome returned is flagged as a
  duplicate and carries that reward, which only the duplicate check provides.
\<close>

theorem loss_node_mutation_runs_duplicate_check:
  "sample_node_idx_to_mutate ex_env (fst (ex_build ex_chain)) (ex_rng [2, Suc 0])
     = Inr (4, 2, ex_loss_node, ex_rng [Suc 0])
   \<and> is_LossOpNode ex_loss_node
   \<and> alter_node_idx ex_env (program_lst ex_chain) (fst (ex_build ex_chain)) (ex_rng [2, Suc 0])
     = Inr (ex_heavy, ex_rng [])
   \<and> duplicate ex_heavy = False
   \<and> mutate ex_env ex_seen ex_world1 (ex_chain, 0)
     = Some (Inr ((\<lparr>program_lst = program_lst ex_chain, loss_weight = 2, duplicate = True,
                     reward = Finite 7, hash_output = Finite 4\<rparr>, 0), ex_seen,
                  \<lparr>py_random = ex_rng [], np_random = ex_rng []\<rparr>))
   \<and> mutate ex_env ex_seen ex_world1 (ex_chain, 0)
     \<noteq> Some (Inr (use_spec ex_env (template_encode ex_env ex_heavy) (dna_spec ex_env (ex_chain, 0)),
                  ex_seen, \<lparr>py_random = ex_rng [], np_random = ex_rng []\<rparr>))"
proof -
  have a: "alter_node_idx ex_env (program_lst ex_chain) (fst (ex_build ex_chain)) (ex_rng [2, Suc 0])
     = Inr (ex_heavy, ex_rng [])"
    by (simp add: ex_chain_alter_loss ex_heavy_def)
  have d: "duplicate ex_heavy = False" by (simp add: ex_heavy_def ex_defaults_def)
  have n: "mutate ex_env ex_seen ex_world1 (ex_chain, 0)
     \<noteq> Some (Inr (use_spec ex_env (template_encode ex_env ex_heavy) (dna_spec ex_env (ex_chain, 0)),
                  ex_seen, \<lparr>py_random = ex_rng [], np_random = ex_rng []\<rparr>))"
    by (simp add: ex_seen_mutate ex_env_fields ex_heavy_def ex_defaults_def)
  show ?thesis
    using a d n ex_seen_mutate ex_chain_sample_loss [of "[Suc 0]"]
    by (simp add: ex_loss_node_def)
qed

section \<open>Evaluating runs of the search loop\<close>

lemma ex_fresh_ops:
  "ops_lst (fst (ex_build ex_fresh0)) =
     [\<lparr>odtype = 0, is_LossOpNode = False, loss_weights = None\<rparr>,
      \<lparr>odtype = 1, is_LossOpNode = False, loss_weights = None\<rparr>,
      \<lparr>odtype = 0, is_LossOpNode = False, loss_weights = None\<rparr>,
      \<lparr>odtype = 0, is_LossOpNode = False, loss_weights = None\<rparr>,
      \<lparr>odtype = 0, is_LossOpNode = True, loss_weights = Some [1 / 2, 2]\<rparr>]"
  "ops_lst (fst (ex_build ex_fresh1)) =
     [\<lparr>odtype = 0, is_LossOpNode = False, loss_weights = None\<rparr>,
      \<lparr>odtype = 1, is_LossOpNode = False, loss_weights = None\<rparr>,
      \<lparr>odtype = 1, is_LossOpNode = False, loss_weights = None\<rparr>,
      \<lparr>odtype = 0, is_LossOpNode = False, loss_weights = None\<rparr>,
      \<lparr>odtype = 0, is_LossOpNode = True, loss_weights = Some [1 / 2, 2]\<rparr>]"
  by (simp_all add: ex_build_def ex_fresh0_def ex_fresh1_def ex_defaults_def ex_inputs_def
      ex_odtype_def)

lemma ex_fresh_sample_loss:
  "sample_node_idx_to_mutate ex_env (fst (ex_build ex_fresh0)) (ex_rng (2 # xs))
     = Inr (4, 2, ex_loss_node, ex_rng xs)"
  "sample_node_idx_to_mutate ex_env (fst (ex_build ex_fresh1)) (ex_rng (2 # xs))
     = Inr (4, 2, ex_loss_node, ex_rng xs)"
  by (simp_all add: sample_node_idx_to_mutate_def ex_fresh_ops ex_env_fields ex_inputs_def
      random_choice_def randbelow_def ex_rng_simps ex_loss_node_def
      upt_rec [of _ "numeral n" for n] upt_rec [of _ "Suc n" for n])

lemma ex_fresh0_alter_heavy:
  "alter_node_idx ex_env (program_lst ex_fresh0) (fst (ex_build ex_fresh0)) (ex_rng (2 # Suc 0 # xs))
     = Inr (ex_defaults\<lparr>program_lst := program_lst ex_fresh0, loss_weight := 2\<rparr>, ex_rng xs)"
  by (simp add: alter_node_idx_def ex_fresh_sample_loss ex_loss_node_def alter_continuous_def
      ex_fresh_ops random_choice_def randbelow_def ex_rng_simps ex_env_fields)

lemma ex_fresh1_alter_light:
  "alter_node_idx ex_env (program_lst ex_fresh1) (fst (ex_build ex_fresh1)) (ex_rng (2 # 0 # xs))
     = Inr (ex_defaults\<lparr>program_lst := program_lst ex_fresh1, loss_weight := 1 / 2\<rparr>, ex_rng xs)"
  by (simp add: alter_node_idx_def ex_fresh_sample_loss ex_loss_node_def alter_continuous_def
      ex_fresh_ops random_choice_def randbelow_def ex_rng_simps ex_env_fields)

lemma ex_fresh_altered:
  "compute_hash_output ex_env m
     (fst (ex_build (ex_defaults\<lparr>program_lst := program_lst ex_fresh0, loss_weight := 2\<rparr>)))
     = Finite 4"
  "snd (ex_build (ex_defaults\<lparr>program_lst := program_lst ex_fresh0, loss_weight := 2\<rparr>))"
  "compute_hash_output ex_env m
     (fst (ex_build (ex_defaults\<lparr>program_lst := program_lst ex_fresh1, loss_weight := 1 / 2\<rparr>)))
     = Finite (7 / 2)"
  "snd (ex_build (ex_defaults\<lparr>program_lst := program_lst ex_fresh1, loss_weight := 1 / 2\<rparr>))"
  by (simp_all add: compute_hash_output_def sum_rounded_def ex_env_fields ex_build_def
      ex_fresh0_def ex_fresh1_def ex_defaults_def f32_min_def f32_max_def min_def max_def)

lemma ex_fresh0_mutate_heavy:
  assumes "output_dict m (Finite 4) = None"
  shows "mutate ex_env m \<lparr>py_random = ex_rng (0 # 2 # Suc 0 # xs), np_random = nr\<rparr> (ex_fresh0, dspec)
   = Some (Inr ((\<lparr>program_lst = program_lst ex_fresh0, loss_weight = 2, duplicate = False,
                   reward = Finite 0, hash_output = Finite 4\<rparr>, dspec), m,
                \<lparr>py_random = ex_rng xs, np_random = nr\<rparr>))"
proof -
  have "mutate_loop ex_env m dspec (program_lst ex_fresh0) (fst (ex_build ex_fresh0))
      \<lparr>py_random = ex_rng (2 # Suc 0 # xs), np_random = nr\<rparr>
   = Some (Inr ((\<lparr>program_lst = program_lst ex_fresh0, loss_weight = 2, duplicate = False,
                   reward = Finite 0, hash_output = Finite 4\<rparr>, dspec),
                \<lparr>py_random = ex_rng xs, np_random = nr\<rparr>))"
    using assms
    by (subst mutate_loop.simps)
       (simp add: ex_fresh0_alter_heavy ex_env_fields split_beta ex_fresh_altered
          check_duplicate_def)
  then show ?thesis
    by (simp add: mutate_def random_random_def ex_rng_simps ex_env_fields)
qed

lemma ex_fresh1_mutate_light:
  assumes "output_dict m (Finite (7 / 2)) = None"
  shows "mutate ex_env m \<lparr>py_random = ex_rng (0 # 2 # 0 # xs), np_random = nr\<rparr> (ex_fresh1, dspec)
   = Some (Inr ((\<lparr>program_lst = program_lst ex_fresh1, loss_weight = 1 / 2, duplicate = False,
                   reward = Finite 0, hash_output = Finite (7 / 2)\<rparr>, dspec), m,
                \<lparr>py_random = ex_rng xs, np_random = nr\<rparr>))"
proof -
  have "mutate_loop ex_env m dspec (program_lst ex_fresh1) (fst (ex_build ex_fresh1))
      \<lparr>py_random = ex_rng (2 # 0 # xs), np_random = nr\<rparr>
   = Some (Inr ((\<lparr>program_lst = program_lst ex_fresh1, loss_weight = 1 / 2, duplicate = False,
                   reward = Finite 0, hash_output = Finite (7 / 2)\<rparr>, dspec),
                \<lparr>py_random = ex_rng xs, np_random = nr\<rparr>))"
    using assms
    by (subst mutate_loop.simps)
       (simp add: ex_fresh1_alter_light ex_env_fields split_beta ex_fresh_altered
          check_duplicate_def)
  then show ?thesis
    by (simp add: mutate_def random_random_def ex_rng_simps ex_env_fields)
qed

lemma ex_propose_warmup:
  assumes "length (population c) < population_size c"
  shows "propose ex_env c \<lparr>py_random = pr, np_random = ex_rng (b # xs)\<rparr> =
           Some (Inr ((ex_defaults\<lparr>program_lst := [(b mod 2, [0]), (0, [0]), (2, [3])]\<rparr>,
                       ctrl_dna_spec c),
                      c, \<lparr>py_random = pr, np_random = ex_rng xs\<rparr>))"
    and "propose ex_env c \<lparr>py_random = pr, np_random = ex_rng []\<rparr> =
           Some (Inr ((ex_defaults\<lparr>program_lst := [(0, [0]), (0, [0]), (2, [3])]\<rparr>,
                       ctrl_dna_spec c),
                      c, \<lparr>py_random = pr, np_random = ex_rng []\<rparr>))"
  using assms
  by (simp_all add: propose_warmup ex_env_fields ex_sampler_def ex_rng_simps)

lemma ex_small_setup: "setup_controller ex_env 2 2 (Some 1) ex_mutator 0 = Inr ex_small"
  by (simp add: setup_controller_def ex_small_def ex_env_fields)

lemma ex_sample_2_2: "sample_positions (ex_rng [Suc 0]) 2 2 = Some ([Suc 0, 0], ex_rng [])"
  by (simp add: sample_positions_def sample_setsize_def randbelow_def ex_rng_simps numeral_2_eq_2
      upt_rec [of _ "numeral n" for n] upt_rec [of _ "Suc n" for n])

lemma ex_sample_2_2_next: "sample_positions (ex_rng []) 2 2 = Some ([0, Suc 0], ex_rng [])"
  by (simp add: sample_positions_def sample_setsize_def randbelow_def ex_rng_simps numeral_2_eq_2
      upt_rec [of _ "numeral n" for n] upt_rec [of _ "Suc n" for n])


section \<open>Seeds and the process-wide generators\<close>

lemma feedback_controller_fields [simp]:
  "random_src (feedback env c d r) = random_src c"
  "tournament_size (feedback env c d r) = tournament_size c"
  "ctrl_dna_spec (feedback env c d r) = ctrl_dna_spec c"
  by (simp_all add: feedback_def)

lemma feedback_population_length:
  "length (population (feedback env c d r)) =
     min (population_size c) (Suc (length (population c)))"
  by (simp add: feedback_population)

text \<open>
  One \<^verbatim>\<open>propose\<close> of a seeded controller: the population and the sizes are kept,
  and the new state of the controller's generator is a function of its old state,
  the length of the population and the two sizes, whatever the rewards, the
  genomes, the mutator and the process-wide generators are.
\<close>

lemma propose_seeded_step:
  assumes g: "random_src c = Some g"
    and p: "propose env c w = Some (Inr (d, c', w'))"
  shows "population c' = population c \<and> population_size c' = population_size c
         \<and> tournament_size c' = tournament_size c
         \<and> (\<exists>g'. random_src c' = Some g'
                \<and> Some g' = (if length (population c) < population_size c then Some g
                             else map_option snd
                                    (sample_positions g (length (population c))
                                       (tournament_size c))))"
proof (cases "length (population c) < population_size c")
  case True
  with p have "c' = c" by (simp add: propose_warmup)
  with g True show ?thesis by simp
next
  case False
  show ?thesis
  proof (cases "tournament_size c \<le> length (population c)")
    case le: True
    from p False obtain t c0 w0 m' where
      dt: "draw_tournament c w = Some (Inr (t, c0, w0))" and c': "c' = c0\<lparr>the_mutator := m'\<rparr>"
      by (auto simp add: propose_def Let_def split: if_splits option.splits sum.splits prod.splits)
    from dt obtain ps g' where
      s: "sample_positions g (length (population c)) (tournament_size c) = Some (ps, g')"
      and c0: "c0 = c\<lparr>random_src := Some g'\<rparr>"
      unfolding draw_tournament_positions [OF le]
      using g by (auto simp add: tournament_rng_def store_tournament_rng_def split: option.splits)
    from False s c' c0 show ?thesis by simp
  next
    case gt: False
    then have "draw_tournament c w = Some (Inl ValueError)"
      using g by (simp add: draw_tournament_def random_sample_def)
    with p False show ?thesis
      by (auto simp add: propose_def split: if_splits)
  qed
qed

lemma search_loop_seeded:
  assumes "random_src c1 = Some g" and "random_src c2 = Some g"
    and "length (population c1) = length (population c2)"
    and "population_size c1 = population_size c2"
    and "tournament_size c1 = tournament_size c2"
    and "search_loop env ev1 n c1 w1 = Some (Inr (ds1, c1', w1'))"
    and "search_loop env ev2 n c2 w2 = Some (Inr (ds2, c2', w2'))"
  shows "(\<exists>g'. random_src c1' = Some g' \<and> random_src c2' = Some g')
         \<and> length (population c1') = length (population c2')
         \<and> population_size c1' = population_size c1 \<and> population_size c2' = population_size c1
         \<and> tournament_size c1' = tournament_size c1 \<and> tournament_size c2' = tournament_size c1"
  using assms
proof (induction n arbitrary: g c1 c2 w1 w2 ds1 ds2)
  case 0
  then show ?case by simp
next
  case (Suc n)
  from Suc.prems(6) obtain d1 a1 v1 es1 where
    p1: "propose env c1 w1 = Some (Inr (d1, a1, v1))"
    and r1: "search_loop env ev1 n (feedback env a1 d1 (ev1 d1)) v1 = Some (Inr (es1, c1', w1'))"
    by (auto split: option.splits sum.splits prod.splits)
  from Suc.prems(7) obtain d2 a2 v2 es2 where
    p2: "propose env c2 w2 = Some (Inr (d2, a2, v2))"
    and r2: "search_loop env ev2 n (feedback env a2 d2 (ev2 d2)) v2 = Some (Inr (es2, c2', w2'))"
    by (auto split: option.splits sum.splits prod.splits)
  note s1 = propose_seeded_step [OF Suc.prems(1) p1]
  note s2 = propose_seeded_step [OF Suc.prems(2) p2]
  from s1 obtain h where h1: "random_src a1 = Some h"
    and h1': "Some h = (if length (population c1) < population_size c1 then Some g
                        else map_option snd
                               (sample_positions g (length (population c1)) (tournament_size c1)))"
    by blast
  from s2 obtain h2 where h2: "random_src a2 = Some h2"
    and h2': "Some h2 = (if length (population c2) < population_size c2 then Some g
                         else map_option snd
                                (sample_positions g (length (population c2)) (tournament_size c2)))"
    by blast
  have "Some h2 = Some h"
    unfolding h1' h2' Suc.prems(3,4,5) ..
  then have "h2 = h" by simp
  with h2 have h2: "random_src a2 = Some h" by simp
  have a: "random_src (feedback env a1 d1 (ev1 d1)) = Some h" using h1 by simp
  have b: "random_src (feedback env a2 d2 (ev2 d2)) = Some h" using h2 by simp
  have c: "length (population (feedback env a1 d1 (ev1 d1)))
           = length (population (feedback env a2 d2 (ev2 d2)))"
    using s1 s2 Suc.prems(3,4) by (simp add: feedback_population_length)
  have d: "population_size (feedback env a1 d1 (ev1 d1))
           = population_size (feedback env a2 d2 (ev2 d2))"
    using s1 s2 Suc.prems(4) by simp
  have e: "tournament_size (feedback env a1 d1 (ev1 d1))
           = tournament_size (feedback env a2 d2 (ev2 d2))"
    using s1 s2 Suc.prems(5) by simp
  from Suc.IH [OF a b c d e r1 r2] s1 s2 Suc.prems(4,5) show ?case by simp
qed

lemma draw_tournament_seeded_positions:
  assumes "random_src c = Some g" and "tournament_size c \<le> length (population c)"
  shows "draw_tournament c v =
           (case sample_positions g (length (population c)) (tournament_size c) of
              None \<Rightarrow> None
            | Some (ps, g') \<Rightarrow>
                Some (Inr (map (\<lambda>i. population c ! i) ps, c\<lparr>random_src := Some g'\<rparr>, v)))"
  using assms
  by (simp add: draw_tournament_positions tournament_rng_def store_tournament_rng_def
      split: option.splits)

text \<open>
  C5, as the code has it. Two runs of the search loop (\<^verbatim>\<open>propose\<close>, evaluation,
  \<^verbatim>\<open>feedback\<close>, repeated) of controllers set up with the same seed and the same sizes,
  whatever their mutators, evaluations and process-wide generators are: after the
  same number of rounds the generator of the controller is in the same state in
  both runs and the populations have the same length, so the next tournament of
  the two runs reads its members at the same positions of the population. That is
  all that the seed determines: the genomes and rewards stored at those positions,
  and so the proposed genomes, come from the generators of the process.
\<close>

theorem same_seed_runs_share_tournament_positions:
  assumes s1: "setup_controller env psize tsize (Some sd) m1 dspec1 = Inr c1"
    and s2: "setup_controller env psize tsize (Some sd) m2 dspec2 = Inr c2"
    and r1: "search_loop env ev1 n c1 w1 = Some (Inr (ds1, c1', w1'))"
    and r2: "search_loop env ev2 n c2 w2 = Some (Inr (ds2, c2', w2'))"
  shows "\<exists>g. random_src c1' = Some g \<and> random_src c2' = Some g
           \<and> length (population c1') = length (population c2')
           \<and> tournament_size c1' = tsize \<and> tournament_size c2' = tsize
           \<and> (tsize \<le> length (population c1') \<longrightarrow>
                (\<forall>v. draw_tournament c1' v =
                   (case sample_positions g (length (population c1')) tsize of
                      None \<Rightarrow> None
                    | Some (ps, g') \<Rightarrow>
                        Some (Inr (map (\<lambda>i. population c1' ! i) ps,
                                   c1'\<lparr>random_src := Some g'\<rparr>, v))))
                \<and> (\<forall>v. draw_tournament c2' v =
                   (case sample_positions g (length (population c1')) tsize of
                      None \<Rightarrow> None
                    | Some (ps, g') \<Rightarrow>
                        Some (Inr (map (\<lambda>i. population c2' ! i) ps,
                                   c2'\<lparr>random_src := Some g'\<rparr>, v)))))"
proof -
  from s1 have c1: "random_src c1 = Some (seed_rng env sd)" "population c1 = []"
    "population_size c1 = psize" "tournament_size c1 = tsize"
    by (auto simp add: setup_controller_def split: if_splits)
  from s2 have c2: "random_src c2 = Some (seed_rng env sd)" "population c2 = []"
    "population_size c2 = psize" "tournament_size c2 = tsize"
    by (auto simp add: setup_controller_def split: if_splits)
  have l: "length (population c1) = length (population c2)" using c1 c2 by simp
  have p: "population_size c1 = population_size c2" using c1 c2 by simp
  have t: "tournament_size c1 = tournament_size c2" using c1 c2 by simp
  from search_loop_seeded [OF c1(1) c2(1) l p t r1 r2] obtain g where
    g: "random_src c1' = Some g" "random_src c2' = Some g"
    and len: "length (population c1') = length (population c2')"
    and ts: "tournament_size c1' = tsize" "tournament_size c2' = tsize"
    using c1 by auto
  have "\<forall>v. draw_tournament c1' v =
          (case sample_positions g (length (population c1')) tsize of
             None \<Rightarrow> None
           | Some (ps, g') \<Rightarrow>
               Some (Inr (map (\<lambda>i. population c1' ! i) ps, c1'\<lparr>random_src := Some g'\<rparr>, v)))"
    if "tsize \<le> length (population c1')"
    using draw_tournament_seeded_positions [OF g(1)] that ts by simp
  moreover have "\<forall>v. draw_tournament c2' v =
          (case sample_positions g (length (population c1')) tsize of
             None \<Rightarrow> None
           | Some (ps, g') \<Rightarrow>
               Some (Inr (map (\<lambda>i. population c2' ! i) ps, c2'\<lparr>random_src := Some g'\<rparr>, v)))"
    if "tsize \<le> length (population c1')"
    using draw_tournament_seeded_positions [OF g(2)] that ts len by simp
  ultimately show ?thesis using g len ts by blast
qed


lemma ex_small_mid:
  "feedback ex_env (feedback ex_env ex_small (p, 0) r) (p, 0) r =
     \<lparr>population_size = 2, tournament_size = 2, seed = Some 1,
      the_mutator = ex_mutator\<lparr>output_dict := [hash_output p \<mapsto> r]\<rparr>, ctrl_dna_spec = 0,
      population = [\<lparr>ind_dna = (p, 0), ind_reward = r\<rparr>, \<lparr>ind_dna = (p, 0), ind_reward = r\<rparr>],
      random_src = Some (ex_rng [1])\<rparr>"
  by (simp add: ex_small_def feedback_def update_output_dict_def ex_env_fields ex_mutator_def)

lemma ex_small_mid_tournament:
  "draw_tournament (feedback ex_env (feedback ex_env ex_small (p, 0) r) (p, 0) r) w =
     Some (Inr ([\<lparr>ind_dna = (p, 0), ind_reward = r\<rparr>, \<lparr>ind_dna = (p, 0), ind_reward = r\<rparr>],
                (feedback ex_env (feedback ex_env ex_small (p, 0) r) (p, 0) r)
                  \<lparr>random_src := Some (ex_rng [])\<rparr>, w))"
proof -
  have g: "random_src (feedback ex_env (feedback ex_env ex_small (p, 0) r) (p, 0) r)
             = Some (ex_rng [Suc 0])"
    by (simp add: ex_small_def)
  have l: "tournament_size (feedback ex_env (feedback ex_env ex_small (p, 0) r) (p, 0) r)
             \<le> length (population (feedback ex_env (feedback ex_env ex_small (p, 0) r) (p, 0) r))"
    by (simp add: ex_small_mid)
  have n: "length (population (feedback ex_env (feedback ex_env ex_small (p, 0) r) (p, 0) r)) = 2"
    by (simp add: ex_small_mid)
  have t: "tournament_size ex_small = 2" by (simp add: ex_small_def)
  have q: "population (feedback ex_env (feedback ex_env ex_small (p, 0) r) (p, 0) r) =
             [\<lparr>ind_dna = (p, 0), ind_reward = r\<rparr>, \<lparr>ind_dna = (p, 0), ind_reward = r\<rparr>]"
    by (simp add: ex_small_mid)
  show ?thesis
    unfolding draw_tournament_seeded_positions [OF g l] n
    by (simp add: t ex_sample_2_2 q)
qed

lemma ex_small_mid_selected:
  "py_max ind_reward
     [\<lparr>ind_dna = (p, 0::nat), ind_reward = Finite x\<rparr>, \<lparr>ind_dna = (p, 0), ind_reward = Finite x\<rparr>]
   = Inr \<lparr>ind_dna = (p, 0), ind_reward = Finite x\<rparr>"
  by (simp add: py_max_def)

lemma ex_evaluate_simps:
  "ex_evaluate (ex_fresh0, 0) = Finite 1" "ex_evaluate (ex_fresh1, 0) = Finite 2"
  "ex_evaluate ex_child_a = Finite 2" "ex_evaluate ex_child_b = Finite (3 / 2)"
  by (simp_all add: ex_evaluate_def ex_fresh0_def ex_fresh1_def ex_defaults_def ex_child_a_def
      ex_child_b_def)

lemma ex_run_a_warmup:
  "propose ex_env ex_small ex_world1 = Some (Inr ((ex_fresh0, 0), ex_small, ex_world1))"
  "propose ex_env (feedback ex_env ex_small d r) ex_world1 =
     Some (Inr ((ex_fresh0, 0), feedback ex_env ex_small d r, ex_world1))"
proof -
  have a: "length (population ex_small) < population_size ex_small" by (simp add: ex_small_def)
  have b: "length (population (feedback ex_env ex_small d r))
             < population_size (feedback ex_env ex_small d r)"
    by (simp add: feedback_population_length) (simp add: ex_small_def)
  show "propose ex_env ex_small ex_world1 = Some (Inr ((ex_fresh0, 0), ex_small, ex_world1))"
    unfolding ex_world1_def ex_propose_warmup(2) [OF a] by (simp add: ex_fresh0_def ex_small_def)
  show "propose ex_env (feedback ex_env ex_small d r) ex_world1 =
     Some (Inr ((ex_fresh0, 0), feedback ex_env ex_small d r, ex_world1))"
    unfolding ex_world1_def ex_propose_warmup(2) [OF b] by (simp add: ex_fresh0_def ex_small_def)
qed

lemma ex_run_a_steady:
  "propose ex_env (feedback ex_env (feedback ex_env ex_small (ex_fresh0, 0) (Finite 1))
                     (ex_fresh0, 0) (Finite 1)) ex_world1 =
     Some (Inr (ex_child_a,
                (feedback ex_env (feedback ex_env ex_small (ex_fresh0, 0) (Finite 1))
                   (ex_fresh0, 0) (Finite 1))\<lparr>random_src := Some (ex_rng [])\<rparr>,
                \<lparr>py_random = ex_rng [], np_random = ex_rng []\<rparr>))"
proof -
  let ?c = "feedback ex_env (feedback ex_env ex_small (ex_fresh0, 0) (Finite 1))
              (ex_fresh0, 0) (Finite 1)"
  have s: "length (population ?c) = population_size ?c" by (simp add: ex_small_mid)
  have o: "output_dict (the_mutator ?c) (Finite 4) = None"
    by (simp add: ex_small_def ex_env_fields ex_mutator_def ex_fresh0_def ex_defaults_def)
  have m: "mutate ex_env (the_mutator ?c) ex_world1 (ex_fresh0, 0) =
     Some (Inr (ex_child_a, the_mutator ?c, \<lparr>py_random = ex_rng [], np_random = ex_rng []\<rparr>))"
    unfolding ex_world1_def ex_child_a_def by (rule ex_fresh0_mutate_heavy) (rule o)
  have d: "ctrl_dna_spec ex_small = 0" by (simp add: ex_small_def)
  show ?thesis
    using propose_steady [OF s ex_small_mid_tournament ex_small_mid_selected, of ex_env ex_world1]
    by (simp add: ex_env_fields d m)
qed

lemma ex_run_a:
  "search_loop ex_env ex_evaluate 3 ex_small ex_world1 =
     Some (Inr ([(ex_fresh0, 0), (ex_fresh0, 0), ex_child_a], ex_final_a,
                \<lparr>py_random = ex_rng [], np_random = ex_rng []\<rparr>))"
  by (simp add: numeral_3_eq_3 ex_run_a_warmup ex_run_a_steady ex_evaluate_simps ex_final_a_def)

lemma ex_run_b_warmup:
  "propose ex_env ex_small ex_world3 =
     Some (Inr ((ex_fresh1, 0), ex_small,
                \<lparr>py_random = ex_rng [0, 2, 0], np_random = ex_rng [Suc 0]\<rparr>))"
  "propose ex_env (feedback ex_env ex_small d r)
       \<lparr>py_random = ex_rng [0, 2, 0], np_random = ex_rng [Suc 0]\<rparr> =
     Some (Inr ((ex_fresh1, 0), feedback ex_env ex_small d r, ex_world2))"
proof -
  have a: "length (population ex_small) < population_size ex_small" by (simp add: ex_small_def)
  have b: "length (population (feedback ex_env ex_small d r))
             < population_size (feedback ex_env ex_small d r)"
    by (simp add: feedback_population_length) (simp add: ex_small_def)
  show "propose ex_env ex_small ex_world3 =
     Some (Inr ((ex_fresh1, 0), ex_small,
                \<lparr>py_random = ex_rng [0, 2, 0], np_random = ex_rng [Suc 0]\<rparr>))"
    unfolding ex_world3_def ex_propose_warmup(1) [OF a] by (simp add: ex_fresh1_def ex_small_def)
  show "propose ex_env (feedback ex_env ex_small d r)
       \<lparr>py_random = ex_rng [0, 2, 0], np_random = ex_rng [Suc 0]\<rparr> =
     Some (Inr ((ex_fresh1, 0), feedback ex_env ex_small d r, ex_world2))"
    unfolding ex_propose_warmup(1) [OF b]
    by (simp add: ex_fresh1_def ex_small_def ex_world2_def)
qed

lemma ex_run_b_steady:
  "propose ex_env (feedback ex_env (feedback ex_env ex_small (ex_fresh1, 0) (Finite 2))
                     (ex_fresh1, 0) (Finite 2)) ex_world2 =
     Some (Inr (ex_child_b,
                (feedback ex_env (feedback ex_env ex_small (ex_fresh1, 0) (Finite 2))
                   (ex_fresh1, 0) (Finite 2))\<lparr>random_src := Some (ex_rng [])\<rparr>,
                \<lparr>py_random = ex_rng [], np_random = ex_rng []\<rparr>))"
proof -
  let ?c = "feedback ex_env (feedback ex_env ex_small (ex_fresh1, 0) (Finite 2))
              (ex_fresh1, 0) (Finite 2)"
  have s: "length (population ?c) = population_size ?c" by (simp add: ex_small_mid)
  have o: "output_dict (the_mutator ?c) (Finite (7 / 2)) = None"
    by (simp add: ex_small_def ex_env_fields ex_mutator_def ex_fresh1_def ex_defaults_def)
  have m: "mutate ex_env (the_mutator ?c) ex_world2 (ex_fresh1, 0) =
     Some (Inr (ex_child_b, the_mutator ?c, \<lparr>py_random = ex_rng [], np_random = ex_rng []\<rparr>))"
    unfolding ex_world2_def ex_child_b_def by (rule ex_fresh1_mutate_light) (rule o)
  have d: "ctrl_dna_spec ex_small = 0" by (simp add: ex_small_def)
  show ?thesis
    using propose_steady [OF s ex_small_mid_tournament ex_small_mid_selected, of ex_env ex_world2]
    by (simp add: ex_env_fields d m)
qed

lemma ex_run_b:
  "search_loop ex_env ex_evaluate 3 ex_small ex_world3 =
     Some (Inr ([(ex_fresh1, 0), (ex_fresh1, 0), ex_child_b], ex_final_b,
                \<lparr>py_random = ex_rng [], np_random = ex_rng []\<rparr>))"
  by (simp add: numeral_3_eq_3 ex_run_b_warmup ex_run_b_steady ex_evaluate_simps ex_final_b_def)

lemma ex_final_fields:
  "random_src ex_final_a = Some (ex_rng [])" "random_src ex_final_b = Some (ex_rng [])"
  "population ex_final_a =
     [\<lparr>ind_dna = (ex_fresh0, 0), ind_reward = Finite 1\<rparr>,
      \<lparr>ind_dna = ex_child_a, ind_reward = Finite 2\<rparr>]"
  "population ex_final_b =
     [\<lparr>ind_dna = (ex_fresh1, 0), ind_reward = Finite 2\<rparr>,
      \<lparr>ind_dna = ex_child_b, ind_reward = Finite (3 / 2)\<rparr>]"
  by (simp_all add: ex_final_a_def ex_final_b_def feedback_population ex_small_mid)


theorem same_seed_runs_share_tournament_positions_witness:
  "setup_controller ex_env 2 2 (Some 1) ex_mutator 0 = Inr ex_small
   \<and> search_loop ex_env ex_evaluate 3 ex_small ex_world1 =
       Some (Inr ([(ex_fresh0, 0), (ex_fresh0, 0), ex_child_a], ex_final_a,
                  \<lparr>py_random = ex_rng [], np_random = ex_rng []\<rparr>))
   \<and> search_loop ex_env ex_evaluate 3 ex_small ex_world3 =
       Some (Inr ([(ex_fresh1, 0), (ex_fresh1, 0), ex_child_b], ex_final_b,
                  \<lparr>py_random = ex_rng [], np_random = ex_rng []\<rparr>))
   \<and> random_src ex_final_a = Some (ex_rng [])
   \<and> random_src ex_final_b = Some (ex_rng [])
   \<and> length (population ex_final_a) = length (population ex_final_b)
   \<and> sample_positions (ex_rng []) 2 2 = Some ([0, Suc 0], ex_rng [])
   \<and> draw_tournament ex_final_a ex_world1 =
       Some (Inr ([\<lparr>ind_dna = (ex_fresh0, 0), ind_reward = Finite 1\<rparr>,
                   \<lparr>ind_dna = ex_child_a, ind_reward = Finite 2\<rparr>],
                  ex_final_a\<lparr>random_src := Some (ex_rng [])\<rparr>, ex_world1))
   \<and> draw_tournament ex_final_b ex_world3 =
       Some (Inr ([\<lparr>ind_dna = (ex_fresh1, 0), ind_reward = Finite 2\<rparr>,
                   \<lparr>ind_dna = ex_child_b, ind_reward = Finite (3 / 2)\<rparr>],
                  ex_final_b\<lparr>random_src := Some (ex_rng [])\<rparr>, ex_world3))"
proof -
  from same_seed_runs_share_tournament_positions
         [OF ex_small_setup ex_small_setup ex_run_a ex_run_b]
  obtain g where g: "random_src ex_final_a = Some g"
    and len: "length (population ex_final_a) = length (population ex_final_b)"
    and dt: "2 \<le> length (population ex_final_a) \<longrightarrow>
               (\<forall>v. draw_tournament ex_final_a v =
                  (case sample_positions g (length (population ex_final_a)) 2 of
                     None \<Rightarrow> None
                   | Some (ps, g') \<Rightarrow>
                       Some (Inr (map (\<lambda>i. population ex_final_a ! i) ps,
                                  ex_final_a\<lparr>random_src := Some g'\<rparr>, v))))
               \<and> (\<forall>v. draw_tournament ex_final_b v =
                  (case sample_positions g (length (population ex_final_a)) 2 of
                     None \<Rightarrow> None
                   | Some (ps, g') \<Rightarrow>
                       Some (Inr (map (\<lambda>i. population ex_final_b ! i) ps,
                                  ex_final_b\<lparr>random_src := Some g'\<rparr>, v))))"
    by blast
  from g have g': "g = ex_rng []" by (simp add: ex_final_fields)
  have n: "length (population ex_final_a) = 2" by (simp add: ex_final_fields)
  note dt' = dt [unfolded n g' ex_sample_2_2_next]
  from dt' have a: "draw_tournament ex_final_a ex_world1 =
       Some (Inr ([\<lparr>ind_dna = (ex_fresh0, 0), ind_reward = Finite 1\<rparr>,
                   \<lparr>ind_dna = ex_child_a, ind_reward = Finite 2\<rparr>],
                  ex_final_a\<lparr>random_src := Some (ex_rng [])\<rparr>, ex_world1))"
    by (simp add: ex_final_fields)
  from dt' have b: "draw_tournament ex_final_b ex_world3 =
       Some (Inr ([\<lparr>ind_dna = (ex_fresh1, 0), ind_reward = Finite 2\<rparr>,
                   \<lparr>ind_dna = ex_child_b, ind_reward = Finite (3 / 2)\<rparr>],
                  ex_final_b\<lparr>random_src := Some (ex_rng [])\<rparr>, ex_world3))"
    by (simp add: ex_final_fields)
  from a b len show ?thesis
    by (simp add: ex_small_setup ex_run_a ex_run_b ex_final_fields ex_sample_2_2_next)
qed

text \<open>
  C5, as stated, fails: two runs with the same seed and the same collaborators,
  which differ only in the state of the module-level generator of \<^verbatim>\<open>random\<close>,
  propose different genomes.
\<close>

theorem same_seed_different_proposals:
  "setup_controller ex_env 4 2 (Some 1) ex_mutator 0 = Inr ex_ctrl
   \<and> ex_full = feedbacks ex_env ex_ctrl
       [((ex_chain, 0), Finite 1), ((ex_chain, 0), Finite 2),
        ((ex_leafy, 0), Finite 3), ((ex_leafy, 0), Finite 4)]
   \<and> propose ex_env ex_full ex_world1 =
       Some (Inr ((\<lparr>program_lst = program_lst ex_chain, loss_weight = 2, duplicate = False,
                     reward = Finite 0, hash_output = Finite 4\<rparr>, 0),
                  ex_full\<lparr>random_src := Some (ex_rng [])\<rparr>,
                  \<lparr>py_random = ex_rng [], np_random = ex_rng []\<rparr>))
   \<and> propose ex_env ex_full ex_world2 =
       Some (Inr ((\<lparr>program_lst = program_lst ex_chain, loss_weight = 1 / 2, duplicate = False,
                     reward = Finite 0, hash_output = Finite (5 / 2)\<rparr>, 0),
                  ex_full\<lparr>random_src := Some (ex_rng [])\<rparr>,
                  \<lparr>py_random = ex_rng [], np_random = ex_rng []\<rparr>))
   \<and> propose ex_env ex_full ex_world1 \<noteq> propose ex_env ex_full ex_world2"
proof -
  have "propose ex_env ex_full ex_world1 \<noteq> propose ex_env ex_full ex_world2"
    by (simp add: ex_full_propose1 ex_full_propose2)
  then show ?thesis
    using ex_setup ex_full_propose1 ex_full_propose2 by (simp add: ex_full_def)
qed

end
